theory Spec2Isabelle
  imports Complex_Main "HOL-Library.Extended_Nat" "HOL-Library.Sublist" "HOL-Library.Word"
begin

unbundle bit_operations_syntax

section \<open>JavaScript values and the parts of the runtime the services rely on\<close>

text \<open>
  A JavaScript number is a double: not-a-number, an infinity, or a finite value, which is
  kept here as the real number it stands for. The services compare numbers and test them
  for finiteness, which is exact on doubles; the one product they take, in \<open>toIsoDate\<close>,
  is rounded by the engine and is treated there.
\<close>

datatype jsnum = NaN | PosInfinity | NegInfinity | Finite real

datatype jsval =
    JNull
  | JBool bool
  | JNum jsnum
  | JStr string
  | JArr "jsval list"
  | JObj "(string \<times> jsval) list"

text \<open>
  \<open>Record<string, unknown>\<close>: the keys in insertion order (the order of \<open>Object.keys\<close>).
  A missing key reads as \<open>undefined\<close>, which is \<open>None\<close> below.
\<close>

type_synonym props = "(string \<times> jsval) list"

text \<open>
  Built-ins of the engine that are not code of the repository are parameters: parsing a
  non-blank string as a number, printing a number, printing an array or object,
  \<open>Date.parse\<close> (\<open>None\<close> for an invalid date), \<open>Date.prototype.toISOString\<close> on a
  valid time value (milliseconds since the epoch), and the product \<open>x * y\<close> of two finite
  numbers, which is the real product rounded to a double or an infinity.
\<close>

record js_runtime =
  StringToNumber :: "string \<Rightarrow> jsnum"
  NumberToString :: "jsnum \<Rightarrow> string"
  ObjectToString :: "jsval \<Rightarrow> string"
  Date_parse :: "string \<Rightarrow> int option"
  Date_toISOString :: "int \<Rightarrow> string"
  NumberMultiply :: "real \<Rightarrow> real \<Rightarrow> jsnum"

text \<open>
  Strings are ASCII strings: \<open>trim\<close> removes the ASCII white space and line ends, and
  \<open>toLowerCase\<close> maps the ASCII capitals.
\<close>

definition isWhiteSpace :: "char \<Rightarrow> bool" where
  "isWhiteSpace c = (c \<in> set [CHR '' '', CHR 0x09, CHR 0x0A, CHR 0x0B, CHR 0x0C, CHR 0x0D])"

definition trim :: "string \<Rightarrow> string" where
  "trim s = rev (dropWhile isWhiteSpace (rev (dropWhile isWhiteSpace s)))"

text \<open>\<open>toLowerCase\<close> on the ASCII letters; other characters are left as they are.\<close>

definition toLowerCaseChar :: "char \<Rightarrow> char" where
  "toLowerCaseChar c =
     (case map_of (zip ''ABCDEFGHIJKLMNOPQRSTUVWXYZ'' ''abcdefghijklmnopqrstuvwxyz'') c of
        Some l \<Rightarrow> l
      | None \<Rightarrow> c)"

definition toLowerCase :: "string \<Rightarrow> string" where
  "toLowerCase s = map toLowerCaseChar s"

definition startsWith :: "string \<Rightarrow> string \<Rightarrow> bool" where
  "startsWith s p = (take (length p) s = p)"

fun str_includes :: "string \<Rightarrow> string \<Rightarrow> bool" where
  "str_includes [] p = (p = [])"
| "str_includes (c # s) p = (startsWith (c # s) p \<or> str_includes s p)"

fun join :: "string list \<Rightarrow> string \<Rightarrow> string" where
  "join [] sep = []"
| "join [x] sep = x"
| "join (x # y # ys) sep = x @ sep @ join (y # ys) sep"

text \<open>\<open>String(n)\<close> for a count \<open>n\<close>: its decimal digits.\<close>

fun String_nat :: "nat \<Rightarrow> string" where
  "String_nat n =
     (if n < 10 then [''0123456789'' ! n]
      else String_nat (n div 10) @ [''0123456789'' ! (n mod 10)])"

declare String_nat.simps [simp del]

definition String_enat :: "enat \<Rightarrow> string" where
  "String_enat n = (case n of enat k \<Rightarrow> String_nat k | \<infinity> \<Rightarrow> ''Infinity'')"

text \<open>\<open>Number(s)\<close> on a string: a blank string is \<open>+0\<close>, as ECMAScript defines it.\<close>

definition Number_of_string :: "js_runtime \<Rightarrow> string \<Rightarrow> jsnum" where
  "Number_of_string R s = (if trim s = [] then Finite 0 else StringToNumber R s)"

definition Number_isFinite :: "jsnum \<Rightarrow> bool" where
  "Number_isFinite n = (case n of Finite _ \<Rightarrow> True | _ \<Rightarrow> False)"

text \<open>
  \<open>new Date(n).getTime()\<close> for a number \<open>n\<close>: the time value, truncated towards zero,
  or \<open>None\<close> (NaN) outside \<open>\<plusminus>8.64e15\<close>.
\<close>

definition Date_of_number :: "jsnum \<Rightarrow> int option" where
  "Date_of_number n =
     (case n of
        Finite x \<Rightarrow>
          if \<bar>x\<bar> > 8640000000000000 then None
          else Some (if 0 \<le> x then \<lfloor>x\<rfloor> else \<lceil>x\<rceil>)
      | _ \<Rightarrow> None)"

text \<open>\<open>n >= c\<close> for a length \<open>n\<close> and a number \<open>c\<close>.\<close>

definition length_ge :: "nat \<Rightarrow> jsnum \<Rightarrow> bool" where
  "length_ge n c =
     (case c of NaN \<Rightarrow> False | PosInfinity \<Rightarrow> False | NegInfinity \<Rightarrow> True
      | Finite x \<Rightarrow> x \<le> real n)"

section \<open>The network\<close>

text \<open>
  A request is the URL and the parameter record that \<open>URLSearchParams\<close> is built from
  (the conversion of the values to text and the percent-encoding are the transport's).
  \<open>fetch\<close> either rejects with a message (the network failed) or is fulfilled with a
  response: its status, its body as text, and its body parsed as JSON, or the message of
  the error that \<open>response.json()\<close> throws. \<open>response.ok\<close> is a status from 200 to 299.
  The server answers a request knowing the exchanges so far, so that any deterministic
  upstream is covered; every exchange is appended to the traffic.
\<close>

datatype qvalue = QString string | QNumber real | QBoolean bool

type_synonym params = "(string \<times> qvalue) list"

datatype request = Request string params

record 'j http_response =
  status :: nat
  body_text :: string
  body_json :: "string + 'j"

datatype 'j fetch_outcome = Rejected string | Fulfilled "'j http_response"

record 'j net =
  server :: "(request \<times> 'j fetch_outcome) list \<Rightarrow> request \<Rightarrow> 'j fetch_outcome"
  traffic :: "(request \<times> 'j fetch_outcome) list"

definition fetch :: "'j net \<Rightarrow> request \<Rightarrow> 'j fetch_outcome \<times> 'j net" where
  "fetch net req =
     (let out = server net (traffic net) req
      in (out, net\<lparr>traffic := traffic net @ [(req, out)]\<rparr>))"

definition response_ok :: "'j http_response \<Rightarrow> bool" where
  "response_ok r = (200 \<le> status r \<and> status r \<le> 299)"

datatype error = Error string

text \<open>Object spread \<open>{...a, ...b}\<close>: a key of \<open>b\<close> replaces its value in place or is appended.\<close>

fun setKey :: "string \<Rightarrow> 'v \<Rightarrow> (string \<times> 'v) list \<Rightarrow> (string \<times> 'v) list" where
  "setKey k v [] = [(k, v)]"
| "setKey k v ((k', v') # ps) = (if k' = k then (k, v) # ps else (k', v') # setKey k v ps)"

definition spread :: "(string \<times> 'v) list \<Rightarrow> (string \<times> 'v) list \<Rightarrow> (string \<times> 'v) list" where
  "spread a b = foldl (\<lambda>acc (k, v). setKey k v acc) a b"

section \<open>boston-open-data.ts: data model\<close>

datatype BostonDatasetId =
  crimeIncidents | fireIncidents | policeDistricts | fireHydrants | fireDepartments
  | communityCenters

datatype dataset_mode = ModeIncident | ModeLayer | ModeStub

datatype dataset_tag = crime | fire

record 'id provenance =
  datasetId :: 'id
  sourceUrl :: string
  fetchedAt :: string
  recordCount :: nat
  queryParams :: params
  warnings :: "string list"

datatype geometry = Point "jsnum list" | OtherGeometry

record feature =
  geometry :: "geometry option"
  properties :: "props option"

record BostonIncident =
  incident_id :: string
  dataset :: dataset_tag
  incidentNumber :: string
  typeCode :: string
  sourceCategory :: string
  date :: "string option"
  dateTimeReported :: "string option"
  description :: string
  district :: string
  incidentType :: string
  address :: string
  lat :: "jsnum option"
  lon :: "jsnum option"
  raw :: props

record BostonLayerData =
  features :: "feature list"

record BostonDatasetPayload =
  incidents :: "BostonIncident list option"
  layer :: "BostonLayerData option"
  provenance :: "BostonDatasetId provenance"

text \<open>
  The optional fields of a configuration are \<open>None\<close> when left out. Page size, page limit
  and record limit are counts, hence natural numbers, as all configured values are.
\<close>

record ArcGisDatasetConfig =
  cfg_id :: BostonDatasetId
  cfg_sourceUrl :: string
  cfg_mode :: dataset_mode
  cfg_queryParams :: "params option"
  cfg_pageSize :: "nat option"
  cfg_maxPages :: "nat option"
  cfg_maxRecords :: "nat option"
  cfg_datasetTag :: "dataset_tag option"
  cfg_warning :: "string option"

definition CACHE_PREFIX :: string where
  "CACHE_PREFIX = ''boston-open-data''"

definition DEFAULT_PAGE_SIZE :: nat where
  "DEFAULT_PAGE_SIZE = 1000"

section \<open>boston-open-data.ts: the schema normalizer\<close>

text \<open>\<open>a || b\<close> on strings: the empty string is falsy.\<close>

definition or_else :: "string \<Rightarrow> string \<Rightarrow> string" where
  "or_else a b = (if a \<noteq> [] then a else b)"

text \<open>\<open>Object.keys(properties).find((k) => k.toLowerCase() === key.toLowerCase())\<close>\<close>

definition findKeyIgnoreCase :: "props \<Rightarrow> string \<Rightarrow> string option" where
  "findKeyIgnoreCase ps key = find (\<lambda>k. toLowerCase k = toLowerCase key) (map fst ps)"

text \<open>One turn of the loop of \<open>pickString\<close>: \<open>None\<close> when the loop goes on to the next key.\<close>

definition pickStringAt :: "js_runtime \<Rightarrow> props \<Rightarrow> string \<Rightarrow> string option" where
  "pickStringAt R ps key =
     (let viaLower =
            (case findKeyIgnoreCase ps key of
               None \<Rightarrow> None
             | Some lower \<Rightarrow>
                 if lower = [] then None
                 else (case map_of ps lower of
                         Some (JStr v) \<Rightarrow> if trim v \<noteq> [] then Some (trim v) else None
                       | Some (JNum v) \<Rightarrow> Some (NumberToString R v)
                       | _ \<Rightarrow> None))
      in case map_of ps key of
           Some (JStr direct) \<Rightarrow> if trim direct \<noteq> [] then Some (trim direct) else viaLower
         | _ \<Rightarrow> viaLower)"

fun pickString :: "js_runtime \<Rightarrow> props \<Rightarrow> string list \<Rightarrow> string" where
  "pickString R ps [] = []"
| "pickString R ps (key # candidates) =
     (case pickStringAt R ps key of Some s \<Rightarrow> s | None \<Rightarrow> pickString R ps candidates)"

definition nullish :: "jsval option \<Rightarrow> bool" where
  "nullish v = (v = None \<or> v = Some JNull)"

definition pickDateStringAt :: "js_runtime \<Rightarrow> props \<Rightarrow> string \<Rightarrow> string option" where
  "pickDateStringAt R ps key =
     (let direct =
            (if nullish (map_of ps key)
             then map_of ps (case findKeyIgnoreCase ps key of Some k \<Rightarrow> k | None \<Rightarrow> [])
             else map_of ps key)
      in case direct of
           Some (JNum n) \<Rightarrow>
             (case Date_of_number n of
                Some t \<Rightarrow> Some (Date_toISOString R t)
              | None \<Rightarrow> None)
         | Some (JStr s) \<Rightarrow>
             if trim s \<noteq> []
             then (case Date_parse R s of
                     Some t \<Rightarrow> Some (Date_toISOString R t)
                   | None \<Rightarrow> Some s)
             else None
         | _ \<Rightarrow> None)"

fun pickDateString :: "js_runtime \<Rightarrow> props \<Rightarrow> string list \<Rightarrow> string option" where
  "pickDateString R ps [] = None"
| "pickDateString R ps (key # candidates) =
     (case pickDateStringAt R ps key of
        Some d \<Rightarrow> Some d
      | None \<Rightarrow> pickDateString R ps candidates)"

text \<open>The result \<open>{ lat, lon }\<close> is the pair \<open>(lat, lon)\<close>; \<open>None\<close> is \<open>null\<close>.\<close>

definition getFeatureCoordinates :: "js_runtime \<Rightarrow> feature \<Rightarrow> jsnum option \<times> jsnum option" where
  "getFeatureCoordinates R f =
     (case geometry f of
        None \<Rightarrow> (None, None)
      | Some g \<Rightarrow>
          (let fromProps =
                 (let props = (case properties f of Some p \<Rightarrow> p | None \<Rightarrow> []);
                      lat' = Number_of_string R
                               (pickString R props [''latitude'', ''lat'', ''y'', ''LATITUDE'']);
                      lon' = Number_of_string R
                               (pickString R props
                                  [''longitude'', ''lon'', ''lng'', ''x'', ''LONGITUDE''])
                  in (if Number_isFinite lat' then Some lat' else None,
                      if Number_isFinite lon' then Some lon' else None))
           in case g of
                Point (c0 # c1 # rest) \<Rightarrow>
                  if Number_isFinite c1 \<and> Number_isFinite c0 then (Some c1, Some c0)
                  else fromProps
              | _ \<Rightarrow> fromProps))"

definition isLikelyFireIncident :: "js_runtime \<Rightarrow> props \<Rightarrow> bool" where
  "isLikelyFireIncident R ps =
     (let haystack = toLowerCase (join
            [pickString R ps [''offense_description'', ''OFFENSE_DESCRIPTION''],
             pickString R ps [''nature'', ''NATURE''],
             pickString R ps [''incident_type_description'', ''INCIDENT_TYPE_DESCRIPTION''],
             pickString R ps [''incident_type'', ''INCIDENT_TYPE''],
             pickString R ps [''department'', ''DEPARTMENT''],
             pickString R ps [''agency'', ''AGENCY'']] '' '')
      in list_ex (str_includes haystack)
           [''fire'', ''alarm'', ''smoke'', ''burn'', ''hazmat'', ''rescue''])"

definition tag_name :: "dataset_tag \<Rightarrow> string" where
  "tag_name t = (case t of crime \<Rightarrow> ''crime'' | fire \<Rightarrow> ''fire'')"

definition normalizeIncidentFeature :: "js_runtime \<Rightarrow> feature \<Rightarrow> dataset_tag \<Rightarrow> BostonIncident" where
  "normalizeIncidentFeature R f datasetTag =
     (let props = (case properties f of Some p \<Rightarrow> p | None \<Rightarrow> []);
          (lat', lon') = getFeatureCoordinates R f;
          date' = pickDateString R props
            [''occurred_on_date'', ''incident_date'', ''dispatch_date'', ''fromdate'', ''open_dt'',
             ''date'', ''offense_date''];
          incidentType' = pickString R props
            [''incident_type_description'', ''incident_type'', ''offense_code_group'',
             ''offense_code_name'', ''nature'', ''service''];
          description' = pickString R props
            [''offense_description'', ''offense_code_name'', ''description'', ''nature'',
             ''comments'', ''incident_type_description''];
          incidentNumber' = pickString R props
            [''incident_number'', ''INCIDENT_NUMBER'', ''incidentnum'', ''INCIDENTNUM'',
             ''case_number'', ''CASE_NUMBER'', ''objectid'', ''OBJECTID''];
          typeCode' = pickString R props
            [''offense_code'', ''OFFENSE_CODE'', ''incident_type'', ''INCIDENT_TYPE'',
             ''nature_code'', ''NATURE_CODE''];
          dateTimeReported' = pickDateString R props
            [''occurred_on_date'', ''incident_date'', ''dispatch_date'', ''report_date'', ''open_dt'',
             ''date''];
          district' = or_else (pickString R props
            [''district'', ''police_district'', ''reporting_area'', ''precinct'']) ''Unknown'';
          address' = or_else (pickString R props
            [''street'', ''streetname'', ''location'', ''address'']) ''Unknown location'';
          objectId = pickString R props
            [''objectid'', ''OBJECTID'', ''incident_number'', ''INCIDENT_NUMBER''];
          id' = or_else incidentNumber' (or_else objectId
                  (tag_name datasetTag @ ''-'' @ address' @ ''-''
                     @ (case date' of Some d \<Rightarrow> d | None \<Rightarrow> ''no-date'') @ ''-''
                     @ or_else typeCode' ''na''))
      in \<lparr>incident_id = id',
          dataset = datasetTag,
          incidentNumber = or_else incidentNumber' (or_else objectId ''N/A''),
          typeCode = or_else typeCode' ''N/A'',
          sourceCategory = or_else incidentType' ''Uncategorized'',
          date = date',
          dateTimeReported = dateTimeReported',
          description = or_else description' (or_else incidentType' ''No description''),
          district = district',
          incidentType = or_else incidentType' ''Unknown'',
          address = address',
          lat = lat',
          lon = lon',
          raw = props\<rparr>)"

definition normalizeIncidentFeatures ::
  "js_runtime \<Rightarrow> feature list \<Rightarrow> dataset_tag \<Rightarrow> BostonIncident list" where
  "normalizeIncidentFeatures R fs datasetTag =
     (let normalized = map (\<lambda>f. normalizeIncidentFeature R f datasetTag) fs
      in if datasetTag = fire
         then filter (\<lambda>incident. isLikelyFireIncident R (raw incident)) normalized
         else normalized)"

section \<open>boston-open-data.ts: the paginated fetcher\<close>

text \<open>
  The body of an ArcGIS answer as a JSON object, as far as the code reads it: a member is
  \<open>None\<close> when it is absent (for \<open>features\<close>, also when it is not an array). A body that
  is not JSON, or is \<open>null\<close>, makes the code throw while it reads the answer; it is the
  error alternative of \<open>body_json\<close>.
\<close>

record arcgis_json =
  json_count :: "jsval option"
  json_features :: "feature list option"
  json_exceededTransferLimit :: "bool option"

record arcgis_page =
  page_features :: "feature list"
  page_exceededTransferLimit :: "bool option"

definition fetchArcGisCount ::
  "arcgis_json net \<Rightarrow> string \<Rightarrow> params \<Rightarrow> (error + jsnum option) \<times> arcgis_json net" where
  "fetchArcGisCount net srcUrl qp =
     (let ps = spread qp [(''returnCountOnly'', QString ''true''), (''f'', QString ''json'')]
      in case fetch net (Request srcUrl ps) of
           (Rejected msg, net') \<Rightarrow> (Inl (Error msg), net')
         | (Fulfilled response, net') \<Rightarrow>
             if \<not> response_ok response then (Inr None, net')
             else (case body_json response of
                     Inl msg \<Rightarrow> (Inl (Error msg), net')
                   | Inr payload \<Rightarrow>
                       (case json_count payload of
                          Some (JNum c) \<Rightarrow> (Inr (Some c), net')
                        | _ \<Rightarrow> (Inr None, net'))))"

definition fetchArcGisPage ::
  "arcgis_json net \<Rightarrow> string \<Rightarrow> params \<Rightarrow> nat \<Rightarrow> nat \<Rightarrow> (error + arcgis_page) \<times> arcgis_json net"
  where
  "fetchArcGisPage net srcUrl qp off limit =
     (let ps = spread qp [(''resultOffset'', QNumber (real off)),
                          (''resultRecordCount'', QNumber (real limit)),
                          (''f'', QString ''geojson'')]
      in case fetch net (Request srcUrl ps) of
           (Rejected msg, net') \<Rightarrow> (Inl (Error msg), net')
         | (Fulfilled response, net') \<Rightarrow>
             if \<not> response_ok response
             then (Inl (Error (''ArcGIS request failed ('' @ String_nat (status response) @ '')'')), net')
             else (case body_json response of
                     Inl msg \<Rightarrow> (Inl (Error msg), net')
                   | Inr payload \<Rightarrow>
                       (Inr \<lparr>page_features = (case json_features payload of Some fs \<Rightarrow> fs | None \<Rightarrow> []),
                             page_exceededTransferLimit = json_exceededTransferLimit payload\<rparr>,
                        net')))"

text \<open>The variables of the paging loop of \<open>fetchArcGisFeatureCollection\<close>.\<close>

record paging =
  offset :: nat
  allFeatures :: "feature list"
  hasMore :: bool
  pageGuard :: nat
  sawExceededTransferLimit :: bool
  page_warnings :: "string list"

text \<open>\<open>xs.slice(0, r)\<close> for \<open>r \<ge> 0\<close>, possibly infinite.\<close>

definition slice0 :: "'a list \<Rightarrow> enat \<Rightarrow> 'a list" where
  "slice0 xs r = (case r of enat n \<Rightarrow> take n xs | \<infinity> \<Rightarrow> xs)"

definition boundedWarning :: "enat \<Rightarrow> string" where
  "boundedWarning maxRecords =
     ''Record fetch bounded at '' @ String_enat maxRecords @ '' records for responsive local usage.''"

definition cappedWarning :: "nat \<Rightarrow> string" where
  "cappedWarning maxPages =
     ''Pagination capped at '' @ String_nat maxPages @ '' pages to protect local runtime.''"

definition transferLimitWarning :: string where
  "transferLimitWarning =
     ''ArcGIS reported exceededTransferLimit during paging; additional pages were requested automatically.''"

definition countWarning :: string where
  "countWarning =
     ''Could not retrieve total count from ArcGIS service (using page-length termination).''"

text \<open>One turn of the loop body, from the page that was received to the end of the body.\<close>

definition acceptPage :: "nat \<Rightarrow> enat \<Rightarrow> jsnum option \<Rightarrow> paging \<Rightarrow> arcgis_page \<Rightarrow> paging" where
  "acceptPage pageSize maxRecords count st page =
     (let featureCount = length (page_features page);
          remaining = max 0 (maxRecords - enat (length (allFeatures st)));
          st1 = st\<lparr>pageGuard := pageGuard st + 1,
                   allFeatures := allFeatures st @ slice0 (page_features page) remaining,
                   sawExceededTransferLimit :=
                     (if page_exceededTransferLimit page = Some True then True
                      else sawExceededTransferLimit st)\<rparr>
      in if maxRecords \<le> enat (length (allFeatures st1))
         then st1\<lparr>page_warnings := page_warnings st1 @ [boundedWarning maxRecords],
                  hasMore := False\<rparr>
         else if featureCount < pageSize \<and> page_exceededTransferLimit page \<noteq> Some True
         then st1\<lparr>hasMore := False\<rparr>
         else if (case count of None \<Rightarrow> False | Some c \<Rightarrow> length_ge (length (allFeatures st1)) c)
         then st1\<lparr>hasMore := False\<rparr>
         else st1\<lparr>offset := offset st1 + pageSize\<rparr>)"

function fetchPages ::
  "string \<Rightarrow> params \<Rightarrow> nat \<Rightarrow> nat \<Rightarrow> enat \<Rightarrow> jsnum option \<Rightarrow> arcgis_json net \<Rightarrow> paging
     \<Rightarrow> (error + paging) \<times> arcgis_json net" where
  "fetchPages srcUrl qp pageSize maxPages maxRecords count net st =
     (if hasMore st \<and> pageGuard st < maxPages then
        (case fetchArcGisPage net srcUrl qp (offset st) pageSize of
           (Inl e, net') \<Rightarrow> (Inl e, net')
         | (Inr page, net') \<Rightarrow>
             fetchPages srcUrl qp pageSize maxPages maxRecords count net'
               (acceptPage pageSize maxRecords count st page))
      else (Inr st, net))"
  by pat_completeness auto
termination
  by (relation "measure (\<lambda>(srcUrl, qp, pageSize, maxPages, maxRecords, count, net, st).
                           maxPages - pageGuard st)")
     (auto simp: acceptPage_def Let_def)

declare fetchPages.simps [simp del]

record fetched_collection =
  fc_layer :: BostonLayerData
  fc_warnings :: "string list"
  fc_queryParams :: params

definition layerCollection :: "feature list \<Rightarrow> BostonLayerData" where
  "layerCollection fs = \<lparr>features = fs\<rparr>"

definition fetchArcGisFeatureCollection ::
  "arcgis_json net \<Rightarrow> ArcGisDatasetConfig \<Rightarrow> (error + fetched_collection) \<times> arcgis_json net" where
  "fetchArcGisFeatureCollection net config =
     (let pageSize = (case cfg_pageSize config of Some n \<Rightarrow> n | None \<Rightarrow> DEFAULT_PAGE_SIZE);
          maxPages = (case cfg_maxPages config of Some n \<Rightarrow> n | None \<Rightarrow> 100);
          maxRecords = (case cfg_maxRecords config of Some n \<Rightarrow> enat n | None \<Rightarrow> \<infinity>);
          qp = spread [(''where'', QString ''1=1''), (''outFields'', QString ''*''),
                       (''returnGeometry'', QBoolean True), (''outSR'', QNumber 4326)]
                      (case cfg_queryParams config of Some q \<Rightarrow> q | None \<Rightarrow> [])
      in case fetchArcGisCount net (cfg_sourceUrl config) qp of
           (Inl e, net1) \<Rightarrow> (Inl e, net1)
         | (Inr count, net1) \<Rightarrow>
             (let warnings0 = (if count = None then [countWarning] else [])
              in case fetchPages (cfg_sourceUrl config) qp pageSize maxPages maxRecords count net1
                        \<lparr>offset = 0, allFeatures = [], hasMore = True, pageGuard = 0,
                         sawExceededTransferLimit = False, page_warnings = warnings0\<rparr> of
                   (Inl e, net2) \<Rightarrow> (Inl e, net2)
                 | (Inr st, net2) \<Rightarrow>
                     (let warnings1 = page_warnings st
                            @ (if maxPages \<le> pageGuard st then [cappedWarning maxPages] else []);
                          warnings2 = warnings1
                            @ (if sawExceededTransferLimit st then [transferLimitWarning] else [])
                      in (Inr \<lparr>fc_layer = layerCollection (allFeatures st),
                               fc_warnings = warnings2,
                               fc_queryParams = spread qp [(''pageSize'', QNumber (real pageSize))]\<rparr>,
                          net2))))"

section \<open>boston-open-data.ts: datasets, cache and refresh\<close>

definition dataset_name :: "BostonDatasetId \<Rightarrow> string" where
  "dataset_name d =
     (case d of
        crimeIncidents \<Rightarrow> ''crimeIncidents''
      | fireIncidents \<Rightarrow> ''fireIncidents''
      | policeDistricts \<Rightarrow> ''policeDistricts''
      | fireHydrants \<Rightarrow> ''fireHydrants''
      | fireDepartments \<Rightarrow> ''fireDepartments''
      | communityCenters \<Rightarrow> ''communityCenters'')"

definition layer_query :: params where
  "layer_query =
     [(''where'', QString ''1=1''), (''outFields'', QString ''*''),
      (''returnGeometry'', QBoolean True), (''outSR'', QNumber 4326)]"

definition DATASETS :: "BostonDatasetId \<Rightarrow> ArcGisDatasetConfig" where
  "DATASETS d =
     (case d of
        crimeIncidents \<Rightarrow>
          \<lparr>cfg_id = crimeIncidents,
           cfg_sourceUrl = ''https://services.arcgis.com/sFnw0xNflSi8J0uh/ArcGIS/rest/services/Boston_Incidents_Public_v2_view/FeatureServer/0/query'',
           cfg_mode = ModeIncident,
           cfg_queryParams = Some (layer_query
             @ [(''orderByFields'', QString ''occurred_on_date DESC, objectid DESC'')]),
           cfg_pageSize = Some 500, cfg_maxPages = Some 8, cfg_maxRecords = Some 4000,
           cfg_datasetTag = Some crime, cfg_warning = None\<rparr>
      | fireIncidents \<Rightarrow>
          \<lparr>cfg_id = fireIncidents,
           cfg_sourceUrl = ''https://services.arcgis.com/sFnw0xNflSi8J0uh/ArcGIS/rest/services/Boston_Incidents_View/FeatureServer/0/query'',
           cfg_mode = ModeIncident,
           cfg_queryParams = Some (layer_query
             @ [(''orderByFields'', QString ''incident_date DESC, objectid DESC'')]),
           cfg_pageSize = Some 500, cfg_maxPages = Some 8, cfg_maxRecords = Some 4000,
           cfg_datasetTag = Some fire, cfg_warning = None\<rparr>
      | policeDistricts \<Rightarrow>
          \<lparr>cfg_id = policeDistricts,
           cfg_sourceUrl = ''https://services.arcgis.com/sFnw0xNflSi8J0uh/ArcGIS/rest/services/Police_Districts/FeatureServer/0/query'',
           cfg_mode = ModeLayer, cfg_queryParams = Some layer_query,
           cfg_pageSize = Some 500, cfg_maxPages = None, cfg_maxRecords = None,
           cfg_datasetTag = None, cfg_warning = None\<rparr>
      | fireHydrants \<Rightarrow>
          \<lparr>cfg_id = fireHydrants,
           cfg_sourceUrl = ''https://data.boston.gov/'',
           cfg_mode = ModeStub, cfg_queryParams = None,
           cfg_pageSize = None, cfg_maxPages = None, cfg_maxRecords = None,
           cfg_datasetTag = None,
           cfg_warning = Some ''Stable public hydrant endpoint not resolved yet. Add Analyze Boston or BostonMaps FeatureServer URL in src/services/boston-open-data.ts (fireHydrants config).''\<rparr>
      | fireDepartments \<Rightarrow>
          \<lparr>cfg_id = fireDepartments,
           cfg_sourceUrl = ''https://services.arcgis.com/sFnw0xNflSi8J0uh/ArcGIS/rest/services/BFD_Firehouse/FeatureServer/0/query'',
           cfg_mode = ModeLayer, cfg_queryParams = Some layer_query,
           cfg_pageSize = Some 500, cfg_maxPages = None, cfg_maxRecords = None,
           cfg_datasetTag = None, cfg_warning = None\<rparr>
      | communityCenters \<Rightarrow>
          \<lparr>cfg_id = communityCenters,
           cfg_sourceUrl = ''https://services.arcgis.com/sFnw0xNflSi8J0uh/ArcGIS/rest/services/Community_Centers/FeatureServer/0/query'',
           cfg_mode = ModeLayer, cfg_queryParams = Some layer_query,
           cfg_pageSize = Some 500, cfg_maxPages = None, cfg_maxRecords = None,
           cfg_datasetTag = None, cfg_warning = None\<rparr>)"

definition cacheKey :: "BostonDatasetId \<Rightarrow> string" where
  "cacheKey d = CACHE_PREFIX @ '':'' @ dataset_name d"

text \<open>
  Modelled from the spec: the module \<open>./persistent-cache\<close> (\<open>getPersistentCache\<close>,
  \<open>setPersistentCache\<close>) is not among the sources. The specification gives it as a
  key-value store, \<open>get(key) -> {data, storedAt}\<close> and \<open>set(key, data)\<close>, whose entries
  are replaced wholesale; it is a map from keys to the stored data, and a write stores.
\<close>

type_synonym 'p cache = "string \<rightharpoonup> 'p"

definition getPersistentCache :: "'p cache \<Rightarrow> string \<Rightarrow> 'p option" where
  "getPersistentCache c key = c key"

definition setPersistentCache :: "'p cache \<Rightarrow> string \<Rightarrow> 'p \<Rightarrow> 'p cache" where
  "setPersistentCache c key payload = c(key \<mapsto> payload)"

definition getCachedBostonDataset ::
  "BostonDatasetPayload cache \<Rightarrow> BostonDatasetId \<Rightarrow> BostonDatasetPayload option" where
  "getCachedBostonDataset c d = getPersistentCache c (cacheKey d)"

definition fireFilterWarning :: string where
  "fireFilterWarning =
     ''No fire incidents matched heuristic filters. Review fire endpoint fields in src/services/boston-open-data.ts.''"

text \<open>
  \<open>refreshBostonDataset\<close>: \<open>now\<close> is \<open>new Date().toISOString()\<close> at the call. The table
  \<open>DATASETS\<close> has an entry for every id, so the check for an unknown dataset cannot fire.
  The result is the payload or the error thrown, with the network and the cache after the
  call.
\<close>

definition refreshBostonDataset ::
  "js_runtime \<Rightarrow> string \<Rightarrow> arcgis_json net \<Rightarrow> BostonDatasetPayload cache \<Rightarrow> BostonDatasetId
     \<Rightarrow> (error + BostonDatasetPayload) \<times> arcgis_json net \<times> BostonDatasetPayload cache" where
  "refreshBostonDataset R now net cache d =
     (let config = DATASETS d
      in if cfg_mode config = ModeStub then
           (let payload =
                  \<lparr>incidents = None,
                   layer = Some \<lparr>features = []\<rparr>,
                   provenance =
                     \<lparr>datasetId = d, sourceUrl = cfg_sourceUrl config, fetchedAt = now,
                      recordCount = 0, queryParams = [],
                      warnings = (case cfg_warning config of
                                    Some w \<Rightarrow> if w \<noteq> [] then [w] else [''Dataset configured as stub.'']
                                  | None \<Rightarrow> [''Dataset configured as stub.''])\<rparr>\<rparr>
            in (Inr payload, net, setPersistentCache cache (cacheKey d) payload))
         else
           (case fetchArcGisFeatureCollection net config of
              (Inl e, net') \<Rightarrow> (Inl e, net', cache)
            | (Inr fc, net') \<Rightarrow>
                (let payload =
                       (if cfg_mode config = ModeIncident then
                          (let incidents' = normalizeIncidentFeatures R (features (fc_layer fc))
                                 (case cfg_datasetTag config of Some t \<Rightarrow> t | None \<Rightarrow> crime)
                           in \<lparr>incidents = Some incidents',
                               layer = None,
                               provenance =
                                 \<lparr>datasetId = d, sourceUrl = cfg_sourceUrl config,
                                  fetchedAt = now, recordCount = length incidents',
                                  queryParams = fc_queryParams fc,
                                  warnings = fc_warnings fc
                                    @ (if cfg_datasetTag config = Some fire \<and> incidents' = []
                                       then [fireFilterWarning] else [])\<rparr>\<rparr>)
                        else
                          \<lparr>incidents = None,
                           layer = Some (fc_layer fc),
                           provenance =
                             \<lparr>datasetId = d, sourceUrl = cfg_sourceUrl config,
                              fetchedAt = now, recordCount = length (features (fc_layer fc)),
                              queryParams = fc_queryParams fc,
                              warnings = fc_warnings fc\<rparr>\<rparr>)
                 in (Inr payload, net', setPersistentCache cache (cacheKey d) payload))))"

section \<open>local-transit: data model\<close>

datatype LocalTransitDatasetId = transitStatus

datatype LocalTransitMode = subway | bus | commuter_rail | ferry | amtrak

datatype LocalTransitAlertSeverity = info | minor | major | severe

datatype alert_source = source_mbta | source_amtrak

datatype line_source = mbta_shape | vehicle_synthetic

record LocalTransitVehicle =
  vehicle_id :: string
  vehicle_mode :: LocalTransitMode
  vehicle_routeId :: string
  vehicle_routeLabel :: string
  vehicle_status :: string
  vehicle_lat :: real
  vehicle_lon :: real
  vehicle_bearing :: "real option"
  vehicle_updatedAt :: "string option"

record LocalTransitLine =
  line_id :: string
  line_mode :: LocalTransitMode
  line_routeId :: string
  line_routeLabel :: string
  line_color :: string
  line_textColor :: string
  line_path :: "(real \<times> real) list"
  line_source :: line_source

record LocalTransitAlert =
  alert_id :: string
  alert_source :: alert_source
  alert_mode :: LocalTransitMode
  alert_title :: string
  alert_description :: string
  alert_severity :: LocalTransitAlertSeverity
  alert_updatedAt :: "string option"
  alert_url :: string

record LocalTransitSummary =
  summary_mode :: LocalTransitMode
  summary_label :: string
  vehicleCount :: nat
  alertCount :: nat
  summary_status :: string

record LocalTransitPayload =
  vehicles :: "LocalTransitVehicle list"
  lines :: "LocalTransitLine list"
  alerts :: "LocalTransitAlert list"
  summaries :: "LocalTransitSummary list"
  transit_provenance :: "LocalTransitDatasetId provenance"

definition CACHE_KEY :: string where
  "CACHE_KEY = ''local-transit:status''"

definition MBTA_BASE_URL :: string where
  "MBTA_BASE_URL = ''https://api-v3.mbta.com''"

definition MBTA_VEHICLES_URL :: string where
  "MBTA_VEHICLES_URL = MBTA_BASE_URL @ ''/vehicles''"

definition MBTA_ALERTS_URL :: string where
  "MBTA_ALERTS_URL = MBTA_BASE_URL @ ''/alerts''"

definition MBTA_GTFS_VEHICLES_ENHANCED_URL :: string where
  "MBTA_GTFS_VEHICLES_ENHANCED_URL = ''https://cdn.mbta.com/realtime/VehiclePositions_enhanced.json''"

definition MBTA_GTFS_ALERTS_ENHANCED_URL :: string where
  "MBTA_GTFS_ALERTS_ENHANCED_URL = ''https://cdn.mbta.com/realtime/Alerts_enhanced.json''"

definition BOSTON_LAT :: real where "BOSTON_LAT = 42.3601"

definition BOSTON_LON :: real where "BOSTON_LON = - 71.0589"

definition BOSTON_RADIUS_KM :: real where "BOSTON_RADIUS_KM = 45"

definition ROUTE_TYPES :: string where "ROUTE_TYPES = ''0,1,2,3,4''"

definition AMTRAK_KEYWORDS :: "string list" where
  "AMTRAK_KEYWORDS =
     [''boston'', ''south station'', ''back bay'', ''route 128'', ''westwood'', ''downeaster'',
      ''north station'', ''acela'', ''northeast regional'', ''lake shore limited'']"

definition AMTRAK_DEFAULT_FEEDS :: "string list" where
  "AMTRAK_DEFAULT_FEEDS =
     [''https://www.amtrak.com/content/amtrak/en-us/service-alerts/rss.xml'',
      ''https://www.amtrak.com/content/amtrak/en-us/service-alerts-and-notices/rss.xml'']"

text \<open>
  What the module takes from its surroundings, and the parts of it that are not modelled
  further because they rest on JSON and XML parsing, on floating-point geometry and on
  locale-dependent sorting. The type \<open>'j\<close> is a parsed JSON document.
  \<^item> \<open>MBTA_API_KEY\<close>, \<open>AMTRAK_FEED_OVERRIDE\<close>: the trimmed environment variables,
    empty when unset;
  \<^item> \<open>parseMbtaError\<close>: the detail extracted from the body of a failed answer;
  \<^item> \<open>asRecord\<close>: whether a document is an object (neither an array nor a primitive);
  \<^item> \<open>vehiclesFromMbtaV3\<close> stands for
    \<open>filterBostonVehicles(normalizeVehiclesFromMbtaV3(payload)).sort(sortByModeThenRoute)\<close>
    and \<open>vehiclesFromGtfsEnhanced\<close> for the same pipeline on the GTFS document;
  \<^item> \<open>normalizeAlertsFromMbtaV3\<close>, \<open>normalizeAlertsFromGtfsEnhanced\<close>, \<open>parseAmtrakFeed\<close>:
    the alert normalizers;
  \<^item> \<open>encodeURIComponent\<close>: the built-in;
  \<^item> \<open>fetchMbtaLines\<close>: the route and shape enrichment, given the vehicles, the shared
    warnings and the network; it returns the lines or the error it throws.
\<close>

record 'j transit_env =
  MBTA_API_KEY :: string
  AMTRAK_FEED_OVERRIDE :: string
  parseMbtaError :: "string \<Rightarrow> string"
  asRecord :: "'j \<Rightarrow> bool"
  vehiclesFromMbtaV3 :: "'j \<Rightarrow> LocalTransitVehicle list"
  vehiclesFromGtfsEnhanced :: "'j \<Rightarrow> LocalTransitVehicle list"
  normalizeAlertsFromMbtaV3 :: "'j \<Rightarrow> LocalTransitAlert list"
  normalizeAlertsFromGtfsEnhanced :: "'j \<Rightarrow> LocalTransitAlert list"
  parseAmtrakFeed :: "string \<Rightarrow> LocalTransitAlert list"
  encodeURIComponent :: "string \<Rightarrow> string"
  fetchMbtaLines ::
    "LocalTransitVehicle list \<Rightarrow> string list \<Rightarrow> 'j net
       \<Rightarrow> (error + LocalTransitLine list) \<times> string list \<times> 'j net"

text \<open>\<open>Array.from(new Set(xs))\<close>: the first occurrence of every element, in order.\<close>

fun uniq :: "'a list \<Rightarrow> 'a list" where
  "uniq [] = []"
| "uniq (x # xs) = x # uniq (removeAll x xs)"

definition AMTRAK_FEED_CANDIDATES :: "'j transit_env \<Rightarrow> string list" where
  "AMTRAK_FEED_CANDIDATES E =
     uniq ((if AMTRAK_FEED_OVERRIDE E \<noteq> [] then [AMTRAK_FEED_OVERRIDE E] else [])
           @ AMTRAK_DEFAULT_FEEDS)"

section \<open>local-transit: dates\<close>

text \<open>\<open>n < x\<close> on a number \<open>n\<close> and a finite \<open>x\<close>.\<close>

definition num_less :: "jsnum \<Rightarrow> real \<Rightarrow> bool" where
  "num_less n x =
     (case n of NaN \<Rightarrow> False | PosInfinity \<Rightarrow> False | NegInfinity \<Rightarrow> True
      | Finite v \<Rightarrow> v < x)"

text \<open>
  \<open>n * k\<close> on a number \<open>n\<close> and a finite \<open>k > 0\<close>. The product of two doubles is their
  real product rounded to a double. Every integer of magnitude at most \<open>2\<^sup>5\<^sup>3\<close> is a
  double, so the product is the real product where both factors and the real product are
  such integers; any other product of finite numbers is the runtime's.
\<close>

definition exactInteger :: "real \<Rightarrow> bool" where
  "exactInteger x = (real_of_int \<lfloor>x\<rfloor> = x \<and> \<bar>x\<bar> \<le> 9007199254740992)"

definition num_times :: "js_runtime \<Rightarrow> jsnum \<Rightarrow> real \<Rightarrow> jsnum" where
  "num_times R n k =
     (case n of
        Finite v \<Rightarrow>
          if exactInteger v \<and> exactInteger k \<and> exactInteger (v * k) then Finite (v * k)
          else NumberMultiply R v k
      | other \<Rightarrow> other)"

text \<open>\<open>String(value)\<close>\<close>

definition js_String :: "js_runtime \<Rightarrow> jsval \<Rightarrow> string" where
  "js_String R v =
     (case v of
        JNull \<Rightarrow> ''null''
      | JBool b \<Rightarrow> (if b then ''true'' else ''false'')
      | JNum n \<Rightarrow> NumberToString R n
      | JStr s \<Rightarrow> s
      | other \<Rightarrow> ObjectToString R other)"

definition toIsoDate :: "js_runtime \<Rightarrow> jsval option \<Rightarrow> string option" where
  "toIsoDate R v =
     (case v of
        None \<Rightarrow> None
      | Some JNull \<Rightarrow> None
      | Some (JNum n) \<Rightarrow>
          (let ms = (if num_less n 1000000000000 then num_times R n 1000 else n)
           in map_option (Date_toISOString R) (Date_of_number ms))
      | Some other \<Rightarrow>
          (let text = trim (js_String R other)
           in if text = [] then None
              else map_option (Date_toISOString R) (Date_parse R text)))"

definition isBostonRelated :: "string \<Rightarrow> bool" where
  "isBostonRelated text =
     (let lower = toLowerCase text in list_ex (\<lambda>keyword. str_includes lower keyword) AMTRAK_KEYWORDS)"

section \<open>local-transit: the tiered fetches\<close>

definition apiKeyParam :: "'j transit_env \<Rightarrow> params" where
  "apiKeyParam E = (if MBTA_API_KEY E \<noteq> [] then [(''api_key'', QString (MBTA_API_KEY E))] else [])"

definition fetchMbtaJson ::
  "'j transit_env \<Rightarrow> 'j net \<Rightarrow> string \<Rightarrow> params \<Rightarrow> (error + 'j) \<times> 'j net" where
  "fetchMbtaJson E net url query =
     (case fetch net (Request url query) of
        (Rejected msg, net') \<Rightarrow> (Inl (Error msg), net')
      | (Fulfilled response, net') \<Rightarrow>
          if \<not> response_ok response then
            (let detail = parseMbtaError E (body_text response)
             in (Inl (Error (''MBTA request failed ('' @ String_nat (status response) @ '')''
                              @ (if detail \<noteq> [] then '': '' @ detail else []))),
                 net'))
          else (case body_json response of
                  Inl msg \<Rightarrow> (Inl (Error msg), net')
                | Inr payload \<Rightarrow> (Inr payload, net')))"

definition fetchJson :: "'j transit_env \<Rightarrow> 'j net \<Rightarrow> string \<Rightarrow> (error + 'j) \<times> 'j net" where
  "fetchJson E net url =
     (case fetch net (Request url []) of
        (Rejected msg, net') \<Rightarrow> (Inl (Error msg), net')
      | (Fulfilled response, net') \<Rightarrow>
          if \<not> response_ok response then
            (Inl (Error (''Request failed ('' @ String_nat (status response) @ '')'')), net')
          else (case body_json response of
                  Inl msg \<Rightarrow> (Inl (Error msg), net')
                | Inr payload \<Rightarrow>
                    if asRecord E payload then (Inr payload, net')
                    else (Inl (Error ''JSON payload was not an object''), net')))"

definition vehiclePrimaryQuery :: "'j transit_env \<Rightarrow> params" where
  "vehiclePrimaryQuery E =
     [(''include'', QString ''route''), (''filter[route_type]'', QString ROUTE_TYPES),
      (''page[limit]'', QNumber 1000)] @ apiKeyParam E"

definition vehicleFallbackQuery :: "'j transit_env \<Rightarrow> params" where
  "vehicleFallbackQuery E =
     [(''include'', QString ''route''), (''page[limit]'', QNumber 1000)] @ apiKeyParam E"

text \<open>
  The \<open>for\<close> loop of \<open>fetchMbtaVehicles\<close> over the labelled queries: \<open>Some vehicles\<close> when a
  query made the function return, otherwise \<open>None\<close>; with the attempt notes and the network.
\<close>

fun vehicleQueries ::
  "'j transit_env \<Rightarrow> (string \<times> params) list \<Rightarrow> string list \<Rightarrow> 'j net
     \<Rightarrow> LocalTransitVehicle list option \<times> string list \<times> 'j net" where
  "vehicleQueries E [] attemptNotes net = (None, attemptNotes, net)"
| "vehicleQueries E ((label, query) # rest) attemptNotes net =
     (case fetchMbtaJson E net MBTA_VEHICLES_URL query of
        (Inr payload, net') \<Rightarrow>
          (let vs = vehiclesFromMbtaV3 E payload
           in if vs \<noteq> [] then (Some vs, attemptNotes, net')
              else vehicleQueries E rest
                     (attemptNotes @ [''MBTA '' @ label
                                       @ '' vehicle query returned zero Boston-area vehicles.''])
                     net')
      | (Inl (Error message), net') \<Rightarrow>
          vehicleQueries E rest
            (attemptNotes @ [''MBTA '' @ label @ '' vehicle query failed ('' @ message @ '').''])
            net')"

text \<open>
  \<open>fetchMbtaVehicles(warnings)\<close>: the vehicles, the shared warnings after the call, and the
  network after the call.
\<close>

definition fetchMbtaVehicles ::
  "'j transit_env \<Rightarrow> 'j net \<Rightarrow> string list
     \<Rightarrow> LocalTransitVehicle list \<times> string list \<times> 'j net" where
  "fetchMbtaVehicles E net warnings' =
     (case vehicleQueries E
             [(''filtered'', vehiclePrimaryQuery E), (''fallback'', vehicleFallbackQuery E)] [] net of
        (Some vs, attemptNotes, net1) \<Rightarrow> (vs, warnings', net1)
      | (None, attemptNotes, net1) \<Rightarrow>
          (case (case fetchJson E net1 MBTA_GTFS_VEHICLES_ENHANCED_URL of
                   (Inr gtfs, net2) \<Rightarrow>
                     (let vs = vehiclesFromGtfsEnhanced E gtfs
                      in if vs \<noteq> [] then (Some vs, attemptNotes, net2)
                         else (None,
                               attemptNotes
                                 @ [''MBTA GTFS vehicle fallback returned zero Boston-area vehicles.''],
                               net2))
                 | (Inl (Error message), net2) \<Rightarrow>
                     (None,
                      attemptNotes @ [''MBTA GTFS vehicle fallback failed ('' @ message @ '').''],
                      net2)) of
             (Some vs, notes, net2) \<Rightarrow> (vs, warnings', net2)
           | (None, notes, net2) \<Rightarrow>
               ([], if notes \<noteq> [] then warnings' @ [join notes '' | ''] else warnings', net2)))"

definition alertPrimaryQuery :: "'j transit_env \<Rightarrow> params" where
  "alertPrimaryQuery E =
     [(''include'', QString ''route''), (''filter[route_type]'', QString ROUTE_TYPES),
      (''page[limit]'', QNumber 250), (''sort'', QString ''-updated_at'')] @ apiKeyParam E"

definition alertFallbackQuery :: "'j transit_env \<Rightarrow> params" where
  "alertFallbackQuery E =
     [(''include'', QString ''route''), (''page[limit]'', QNumber 250),
      (''sort'', QString ''-updated_at'')] @ apiKeyParam E"

fun alertQueries ::
  "'j transit_env \<Rightarrow> (string \<times> params) list \<Rightarrow> string list \<Rightarrow> 'j net
     \<Rightarrow> LocalTransitAlert list option \<times> string list \<times> 'j net" where
  "alertQueries E [] attemptNotes net = (None, attemptNotes, net)"
| "alertQueries E ((label, query) # rest) attemptNotes net =
     (case fetchMbtaJson E net MBTA_ALERTS_URL query of
        (Inr payload, net') \<Rightarrow>
          (let as = normalizeAlertsFromMbtaV3 E payload
           in if as \<noteq> [] then (Some as, attemptNotes, net')
              else alertQueries E rest
                     (attemptNotes @ [''MBTA '' @ label @ '' alert query returned zero alerts.''])
                     net')
      | (Inl (Error message), net') \<Rightarrow>
          alertQueries E rest
            (attemptNotes @ [''MBTA '' @ label @ '' alert query failed ('' @ message @ '').''])
            net')"

definition fetchMbtaAlerts ::
  "'j transit_env \<Rightarrow> 'j net \<Rightarrow> string list
     \<Rightarrow> LocalTransitAlert list \<times> string list \<times> 'j net" where
  "fetchMbtaAlerts E net warnings' =
     (case alertQueries E
             [(''filtered'', alertPrimaryQuery E), (''fallback'', alertFallbackQuery E)] [] net of
        (Some as, attemptNotes, net1) \<Rightarrow> (as, warnings', net1)
      | (None, attemptNotes, net1) \<Rightarrow>
          (case (case fetchJson E net1 MBTA_GTFS_ALERTS_ENHANCED_URL of
                   (Inr gtfs, net2) \<Rightarrow>
                     (let as = normalizeAlertsFromGtfsEnhanced E gtfs
                      in if as \<noteq> [] then (Some as, attemptNotes, net2)
                         else (None,
                               attemptNotes @ [''MBTA GTFS alert fallback returned zero alerts.''],
                               net2))
                 | (Inl (Error message), net2) \<Rightarrow>
                     (None,
                      attemptNotes @ [''MBTA GTFS alert fallback failed ('' @ message @ '').''],
                      net2)) of
             (Some as, notes, net2) \<Rightarrow> (as, warnings', net2)
           | (None, notes, net2) \<Rightarrow>
               ([], if notes \<noteq> [] then warnings' @ [join notes '' | ''] else warnings', net2)))"

record amtrak_result =
  amtrak_alerts :: "LocalTransitAlert list"
  amtrak_sourceUrl :: string

text \<open>The \<open>for\<close> loop of \<open>fetchAmtrakAlerts\<close> over the candidate feeds.\<close>

fun amtrakCandidates ::
  "'j transit_env \<Rightarrow> string list \<Rightarrow> string list \<Rightarrow> string list \<Rightarrow> 'j net
     \<Rightarrow> amtrak_result option \<times> string list \<times> string list \<times> 'j net" where
  "amtrakCandidates E [] failures warnings' net = (None, failures, warnings', net)"
| "amtrakCandidates E (candidate # rest) failures warnings' net =
     (let proxied = ''/api/rss-proxy?url='' @ encodeURIComponent E candidate
      in case fetch net (Request proxied []) of
           (Rejected message, net') \<Rightarrow>
             amtrakCandidates E rest (failures @ [candidate @ '' -> '' @ message]) warnings' net'
         | (Fulfilled response, net') \<Rightarrow>
             if \<not> response_ok response then
               amtrakCandidates E rest
                 (failures @ [candidate @ '' -> HTTP '' @ String_nat (status response)])
                 warnings' net'
             else
               (let all = parseAmtrakFeed E (body_text response)
                in if all = [] then
                     amtrakCandidates E rest
                       (failures @ [candidate @ '' -> empty/unparseable feed'']) warnings' net'
                   else
                     (let bostonOnly =
                            filter (\<lambda>item. isBostonRelated
                                      (alert_title item @ '' '' @ alert_description item)) all
                      in (Some \<lparr>amtrak_alerts = bostonOnly, amtrak_sourceUrl = candidate\<rparr>,
                          failures,
                          (if bostonOnly = []
                           then warnings'
                                  @ [''Amtrak feed reachable but no Boston-area alerts matched filters.'']
                           else warnings'),
                          net'))))"

definition fetchAmtrakAlerts ::
  "'j transit_env \<Rightarrow> 'j net \<Rightarrow> string list \<Rightarrow> amtrak_result \<times> string list \<times> 'j net" where
  "fetchAmtrakAlerts E net warnings' =
     (case amtrakCandidates E (AMTRAK_FEED_CANDIDATES E) [] warnings' net of
        (Some result, failures, warnings1, net') \<Rightarrow> (result, warnings1, net')
      | (None, failures, warnings1, net') \<Rightarrow>
          (\<lparr>amtrak_alerts = [], amtrak_sourceUrl = join (AMTRAK_FEED_CANDIDATES E) '' | ''\<rparr>,
           (if failures \<noteq> []
            then warnings1
                   @ [''Amtrak alerts unavailable ('' @ join (take 2 failures) '' | '' @ '').'']
            else warnings1),
           net'))"

section \<open>local-transit: summary and refresh\<close>

definition modeLabel :: "LocalTransitMode \<Rightarrow> string" where
  "modeLabel m =
     (case m of subway \<Rightarrow> ''Subway'' | bus \<Rightarrow> ''Bus'' | commuter_rail \<Rightarrow> ''Commuter Rail''
      | ferry \<Rightarrow> ''Ferry'' | amtrak \<Rightarrow> ''Amtrak'')"

definition buildSummary ::
  "LocalTransitVehicle list \<Rightarrow> LocalTransitAlert list \<Rightarrow> LocalTransitSummary list" where
  "buildSummary vs as =
     map (\<lambda>m.
            let vehicleCount' =
                  (if m = amtrak then 0 else length (filter (\<lambda>v. vehicle_mode v = m) vs));
                modeAlerts = filter (\<lambda>a. alert_mode a = m) as;
                hasSevere = list_ex (\<lambda>a. alert_severity a = severe \<or> alert_severity a = major)
                              modeAlerts;
                status' =
                  (if modeAlerts \<noteq> [] then
                     (if hasSevere then ''Major service disruption''
                      else String_nat (length modeAlerts) @ '' active service alert''
                             @ (if length modeAlerts = 1 then [] else ''s''))
                   else if m \<noteq> amtrak \<and> vehicleCount' = 0 then ''No live vehicles reported''
                   else if m = amtrak then ''No Boston-area alert published''
                   else ''Normal service'')
            in \<lparr>summary_mode = m, summary_label = modeLabel m, vehicleCount = vehicleCount',
                alertCount = length modeAlerts, summary_status = status'\<rparr>)
         [subway, bus, commuter_rail, ferry, amtrak]"

text \<open>
  The key of the sort of the alerts: \<open>a.updatedAt ? Date.parse(a.updatedAt) : 0\<close>. Every
  \<open>updatedAt\<close> is an output of \<open>toISOString\<close>, on which \<open>Date.parse\<close> is defined.
\<close>

definition alertTime :: "js_runtime \<Rightarrow> LocalTransitAlert \<Rightarrow> int" where
  "alertTime R a =
     (case alert_updatedAt a of
        None \<Rightarrow> 0
      | Some s \<Rightarrow> if s = [] then 0 else (case Date_parse R s of Some t \<Rightarrow> t | None \<Rightarrow> 0))"

text \<open>
  \<open>refreshLocalTransit\<close>. The three fetches are started together and awaited with
  \<open>Promise.allSettled\<close>; here they run one after the other, in the order in which they are
  started, and share the warnings. None of them can reject, each catching its own errors,
  so the branches for a rejected result are not entered. \<open>Array.prototype.sort\<close> is
  stable, so the alerts are sorted stably by descending time.
\<close>

definition refreshLocalTransit ::
  "'j transit_env \<Rightarrow> js_runtime \<Rightarrow> string \<Rightarrow> 'j net \<Rightarrow> LocalTransitPayload cache
     \<Rightarrow> LocalTransitPayload \<times> 'j net \<times> LocalTransitPayload cache" where
  "refreshLocalTransit E R now net cache =
     (case fetchMbtaVehicles E net [] of (vs, warnings1, net1) \<Rightarrow>
      case fetchMbtaAlerts E net1 warnings1 of (mbtaAlerts, warnings2, net2) \<Rightarrow>
      case fetchAmtrakAlerts E net2 warnings2 of (amtrak', warnings3, net3) \<Rightarrow>
      case (if vs \<noteq> [] then
              (case fetchMbtaLines E vs warnings3 net3 of
                 (Inr ls, warnings4, net4) \<Rightarrow> (ls, warnings4, net4)
               | (Inl (Error message), warnings4, net4) \<Rightarrow>
                   ([], warnings4 @ [''MBTA transit line refresh failed ('' @ message @ '').''], net4))
            else ([], warnings3, net3)) of (ls, warnings5, net5) \<Rightarrow>
      (let as = sort_key (\<lambda>a. - alertTime R a) (mbtaAlerts @ amtrak_alerts amtrak');
           payload =
             \<lparr>vehicles = vs,
              lines = ls,
              alerts = as,
              summaries = buildSummary vs as,
              transit_provenance =
                \<lparr>datasetId = transitStatus,
                 sourceUrl = MBTA_VEHICLES_URL,
                 fetchedAt = now,
                 recordCount = length vs + length as,
                 queryParams =
                   [(''mbtaRouteTypes'', QString ROUTE_TYPES),
                    (''bostonLat'', QNumber BOSTON_LAT),
                    (''bostonLon'', QNumber BOSTON_LON),
                    (''bostonRadiusKm'', QNumber BOSTON_RADIUS_KM),
                    (''mbtaApiKeyUsed'', QBoolean (MBTA_API_KEY E \<noteq> [])),
                    (''mbtaAlertsEndpoint'', QString MBTA_ALERTS_URL),
                    (''mbtaVehiclesGtfsFallback'', QString MBTA_GTFS_VEHICLES_ENHANCED_URL),
                    (''mbtaAlertsGtfsFallback'', QString MBTA_GTFS_ALERTS_ENHANCED_URL),
                    (''amtrakSource'', QString (amtrak_sourceUrl amtrak')),
                    (''amtrakFeedCandidates'', QNumber (real (length (AMTRAK_FEED_CANDIDATES E)))),
                    (''amtrakOverrideConfigured'', QBoolean (AMTRAK_FEED_OVERRIDE E \<noteq> []))],
                 warnings = warnings5\<rparr>\<rparr>
       in (payload, net5, setPersistentCache cache CACHE_KEY payload)))"

section \<open>local-transit: compact polyline decoding\<close>

text \<open>
  \<open>decodePolyline\<close> works on 32-bit integers where it uses bitwise operators: \<open>result\<close> is
  an int32, \<open><<\<close> takes its shift count modulo 32, \<open>>>\<close> is the arithmetic shift. The sums
  \<open>lat\<close> and \<open>lon\<close> are ordinary numbers and are integers here. The string is the list
  of its UTF-16 code units, which is what \<open>charCodeAt\<close> reads; any list is admitted, so
  that malformed input is covered.

  The inner \<open>do ... while (byte >= 0x20)\<close> loop, from \<open>index\<close> on: \<open>None\<close> when the string
  ends inside the group (the code then returns the coordinates it has), otherwise the
  accumulated \<open>result\<close> and the index after the group.
\<close>

type_synonym code_units = "nat list"

function readChunk :: "code_units \<Rightarrow> nat \<Rightarrow> nat \<Rightarrow> 32 word \<Rightarrow> (32 word \<times> nat) option" where
  "readChunk encoded index shift result =
     (if length encoded \<le> index then None
      else
        (let byte = int (encoded ! index) - 63;
             result' = result OR push_bit (shift mod 32) (word_of_int byte AND 0x1f)
         in if 0x20 \<le> byte then readChunk encoded (index + 1) (shift + 5) result'
            else Some (result', index + 1)))"
  by pat_completeness auto
termination
  by (relation "measure (\<lambda>(encoded, index, shift, result). length encoded - index)") auto

declare readChunk.simps [simp del]

lemma readChunk_advances:
  "readChunk encoded index shift result = Some (r, i) \<Longrightarrow> index < i \<and> i \<le> length encoded"
proof (induction encoded index shift result rule: readChunk.induct)
  case (1 encoded index shift result)
  show ?case
  proof (cases "length encoded \<le> index")
    case True
    with "1.prems" show ?thesis by (simp add: readChunk.simps)
  next
    case False
    show ?thesis
    proof (cases "0x20 \<le> int (encoded ! index) - 63")
      case True
      with False "1.prems" have
        "readChunk encoded (index + 1) (shift + 5)
           (result OR push_bit (shift mod 32)
              (word_of_int (int (encoded ! index) - 63) AND 0x1f)) = Some (r, i)"
        by (simp add: readChunk.simps[of encoded index] Let_def)
      from "1.IH"[OF False refl refl True this] show ?thesis by simp
    next
      case True': False
      with False "1.prems" show ?thesis
        by (auto simp: readChunk.simps[of encoded index] Let_def)
    qed
  qed
qed

text \<open>\<open>(result & 1) ? ~(result >> 1) : (result >> 1)\<close>\<close>

definition unzigzag :: "32 word \<Rightarrow> int" where
  "unzigzag result =
     sint (if result AND 1 \<noteq> 0 then NOT (signed_drop_bit 1 result)
           else signed_drop_bit 1 result)"

text \<open>
  The outer loop. A coordinate is the pair \<open>[lon / 1e5, lat / 1e5]\<close>; each quotient is
  given by its exact value, of which the code returns the nearest double.
\<close>

function decodeFrom ::
  "code_units \<Rightarrow> nat \<Rightarrow> int \<Rightarrow> int \<Rightarrow> (real \<times> real) list \<Rightarrow> (real \<times> real) list" where
  "decodeFrom encoded index lat' lon' coordinates =
     (if index < length encoded then
        (case readChunk encoded index 0 0 of
           None \<Rightarrow> coordinates
         | Some (result1, index1) \<Rightarrow>
             (let lat2 = lat' + unzigzag result1
              in case readChunk encoded index1 0 0 of
                   None \<Rightarrow> coordinates
                 | Some (result2, index2) \<Rightarrow>
                     (let lon2 = lon' + unzigzag result2
                      in decodeFrom encoded index2 lat2 lon2
                           (coordinates @ [(real_of_int lon2 / 100000, real_of_int lat2 / 100000)]))))
      else coordinates)"
  by pat_completeness auto
termination
proof (relation "measure (\<lambda>(encoded, index, lat', lon', coordinates). length encoded - index)")
  show "wf (measure (\<lambda>(encoded, index, lat', lon', coordinates). length encoded - index))"
    by simp
next
  fix encoded :: code_units and index :: nat and lat' lon' :: int
    and coordinates :: "(real \<times> real) list"
    and x2 result1 index1 lat2 x2a result2 index2 lon2
  assume "index < length encoded"
    and a1: "readChunk encoded index 0 0 = Some x2" "(result1, index1) = x2"
    and a2: "readChunk encoded index1 0 0 = Some x2a" "(result2, index2) = x2a"
  from a1 have "index < index1" using readChunk_advances[of encoded index 0 0 result1 index1] by simp
  moreover from a2 have "index1 < index2 \<and> index2 \<le> length encoded"
    using readChunk_advances[of encoded index1 0 0 result2 index2] by simp
  ultimately show
    "((encoded, index2, lat2, lon2,
       coordinates @ [(real_of_int lon2 / 100000, real_of_int lat2 / 100000)]),
      (encoded, index, lat', lon', coordinates))
     \<in> measure (\<lambda>(encoded, index, lat', lon', coordinates). length encoded - index)"
    by auto
qed

declare decodeFrom.simps [simp del]

definition decodePolyline :: "code_units \<Rightarrow> (real \<times> real) list" where
  "decodePolyline encoded = (if encoded = [] then [] else decodeFrom encoded 0 0 0 [])"

section \<open>Vocabulary of the properties\<close>

text \<open>The warning that the record cap pushes, recognised by its fixed opening words.\<close>

definition isBoundedWarning :: "string \<Rightarrow> bool" where
  "isBoundedWarning w = startsWith w ''Record fetch bounded''"

text \<open>
  The invariant of the record cap: the cap bounds the accumulated features; the bounded
  warning is there exactly when a page has been accepted and the cap is reached; and the
  loop goes on only below the cap.
\<close>

definition paging_inv :: "enat \<Rightarrow> paging \<Rightarrow> bool" where
  "paging_inv maxRecords st =
     (enat (length (allFeatures st)) \<le> maxRecords \<and>
      ((\<exists>w \<in> set (page_warnings st). isBoundedWarning w) \<longleftrightarrow>
         (0 < pageGuard st \<and> maxRecords \<le> enat (length (allFeatures st)))) \<and>
      (hasMore st \<and> 0 < pageGuard st \<longrightarrow> enat (length (allFeatures st)) < maxRecords))"

text \<open>
  The exchange that a request made on \<open>net\<close> adds to the traffic, and the outcomes of a
  tier that make the tiered fetches return: a document with at least one usable record.
\<close>

definition exchange :: "'j net \<Rightarrow> request \<Rightarrow> request \<times> 'j fetch_outcome" where
  "exchange net req = (req, server net (traffic net) req)"

definition usableVehicles :: "'j transit_env \<Rightarrow> error + 'j \<Rightarrow> bool" where
  "usableVehicles E r =
     (case r of Inr payload \<Rightarrow> vehiclesFromMbtaV3 E payload \<noteq> [] | Inl e \<Rightarrow> False)"

definition usableAlerts :: "'j transit_env \<Rightarrow> error + 'j \<Rightarrow> bool" where
  "usableAlerts E r =
     (case r of Inr payload \<Rightarrow> normalizeAlertsFromMbtaV3 E payload \<noteq> [] | Inl e \<Rightarrow> False)"

definition usableFeed :: "'j transit_env \<Rightarrow> 'j fetch_outcome \<Rightarrow> bool" where
  "usableFeed E out =
     (case out of
        Fulfilled response \<Rightarrow> response_ok response \<and> parseAmtrakFeed E (body_text response) \<noteq> []
      | Rejected message \<Rightarrow> False)"

text \<open>
  The same for the third tier of the two MBTA fetches, the GTFS feed; and the attempt note
  that the code records for the answer of a tier that is not usable: that the tier
  returned nothing when the request succeeded, the message of the error when it failed.
\<close>

definition usableGtfsVehicles :: "'j transit_env \<Rightarrow> error + 'j \<Rightarrow> bool" where
  "usableGtfsVehicles E r =
     (case r of Inr gtfs \<Rightarrow> vehiclesFromGtfsEnhanced E gtfs \<noteq> [] | Inl e \<Rightarrow> False)"

definition usableGtfsAlerts :: "'j transit_env \<Rightarrow> error + 'j \<Rightarrow> bool" where
  "usableGtfsAlerts E r =
     (case r of Inr gtfs \<Rightarrow> normalizeAlertsFromGtfsEnhanced E gtfs \<noteq> [] | Inl e \<Rightarrow> False)"

definition vehicleQueryNote :: "string \<Rightarrow> error + 'j \<Rightarrow> string" where
  "vehicleQueryNote label r =
     (case r of
        Inr payload \<Rightarrow> ''MBTA '' @ label @ '' vehicle query returned zero Boston-area vehicles.''
      | Inl (Error message) \<Rightarrow> ''MBTA '' @ label @ '' vehicle query failed ('' @ message @ '').'')"

definition vehicleGtfsNote :: "error + 'j \<Rightarrow> string" where
  "vehicleGtfsNote r =
     (case r of
        Inr gtfs \<Rightarrow> ''MBTA GTFS vehicle fallback returned zero Boston-area vehicles.''
      | Inl (Error message) \<Rightarrow> ''MBTA GTFS vehicle fallback failed ('' @ message @ '').'')"

definition alertQueryNote :: "string \<Rightarrow> error + 'j \<Rightarrow> string" where
  "alertQueryNote label r =
     (case r of
        Inr payload \<Rightarrow> ''MBTA '' @ label @ '' alert query returned zero alerts.''
      | Inl (Error message) \<Rightarrow> ''MBTA '' @ label @ '' alert query failed ('' @ message @ '').'')"

definition alertGtfsNote :: "error + 'j \<Rightarrow> string" where
  "alertGtfsNote r =
     (case r of
        Inr gtfs \<Rightarrow> ''MBTA GTFS alert fallback returned zero alerts.''
      | Inl (Error message) \<Rightarrow> ''MBTA GTFS alert fallback failed ('' @ message @ '').'')"

definition proxied :: "'j transit_env \<Rightarrow> string \<Rightarrow> request" where
  "proxied E candidate = Request (''/api/rss-proxy?url='' @ encodeURIComponent E candidate) []"

text \<open>
  What the code makes of the answer to a page request; an answer outside 2xx; an answer
  that signals the transfer limit; and the exchanges that a fetch started on \<open>net\<close> and
  ended on \<open>net'\<close> made after its first one, the count probe.
\<close>

definition pageOutcome :: "arcgis_json fetch_outcome \<Rightarrow> error + arcgis_page" where
  "pageOutcome out =
     (case out of
        Rejected msg \<Rightarrow> Inl (Error msg)
      | Fulfilled response \<Rightarrow>
          if \<not> response_ok response
          then Inl (Error (''ArcGIS request failed ('' @ String_nat (status response) @ '')''))
          else (case body_json response of
                  Inl msg \<Rightarrow> Inl (Error msg)
                | Inr payload \<Rightarrow>
                    Inr \<lparr>page_features = (case json_features payload of Some fs \<Rightarrow> fs | None \<Rightarrow> []),
                         page_exceededTransferLimit = json_exceededTransferLimit payload\<rparr>))"

definition non2xx :: "'j fetch_outcome \<Rightarrow> bool" where
  "non2xx out = (case out of Fulfilled response \<Rightarrow> \<not> response_ok response | Rejected msg \<Rightarrow> False)"

definition pageAccepted :: "request \<times> arcgis_json fetch_outcome \<Rightarrow> bool" where
  "pageAccepted x = (case pageOutcome (snd x) of Inr page \<Rightarrow> True | Inl e \<Rightarrow> False)"

definition signalsTransferLimit :: "request \<times> arcgis_json fetch_outcome \<Rightarrow> bool" where
  "signalsTransferLimit x =
     (case pageOutcome (snd x) of
        Inr page \<Rightarrow> page_exceededTransferLimit page = Some True
      | Inl e \<Rightarrow> False)"

definition pageExchanges ::
  "arcgis_json net \<Rightarrow> arcgis_json net \<Rightarrow> (request \<times> arcgis_json fetch_outcome) list" where
  "pageExchanges net net' = drop (Suc (length (traffic net))) (traffic net')"

text \<open>
  The invariant of the transfer-limit flag of the paging loop, over the traffic \<open>before\<close>
  the first page request: the flag is set exactly when an accepted page signalled the
  limit, and the loop itself pushes no continuation warning.
\<close>

definition transfer_inv :: "(request \<times> arcgis_json fetch_outcome) list \<Rightarrow> arcgis_json net \<Rightarrow> paging \<Rightarrow> bool" where
  "transfer_inv before n s =
     (\<exists>xs. traffic n = before @ xs
           \<and> (sawExceededTransferLimit s \<longleftrightarrow> list_ex signalsTransferLimit xs)
           \<and> transferLimitWarning \<notin> set (page_warnings s))"



section \<open>Example upstreams\<close>

definition blank_feature :: feature where
  "blank_feature = \<lparr>geometry = None, properties = None\<rparr>"

definition ok_json :: "'j \<Rightarrow> 'j fetch_outcome" where
  "ok_json j = Fulfilled \<lparr>status = 200, body_text = [], body_json = Inr j\<rparr>"

text \<open>
  An upstream that answers the first request (the count probe) with \<open>cnt\<close> and the
  \<open>k\<close>-th page request with the \<open>k\<close>-th scripted page, given by its features and its
  \<open>exceededTransferLimit\<close> flag; later pages are empty.
\<close>

definition scripted_server ::
  "jsval option \<Rightarrow> (feature list \<times> bool option) list \<Rightarrow> (request \<times> arcgis_json fetch_outcome) list
     \<Rightarrow> request \<Rightarrow> arcgis_json fetch_outcome" where
  "scripted_server cnt pages hist req =
     (case hist of
        [] \<Rightarrow> ok_json \<lparr>json_count = cnt, json_features = None, json_exceededTransferLimit = None\<rparr>
      | _ # earlier \<Rightarrow>
          (if length earlier < length pages
           then ok_json \<lparr>json_count = None,
                         json_features = Some (fst (pages ! length earlier)),
                         json_exceededTransferLimit = snd (pages ! length earlier)\<rparr>
           else ok_json \<lparr>json_count = None, json_features = Some [],
                         json_exceededTransferLimit = None\<rparr>))"

definition example_config :: "nat option \<Rightarrow> nat option \<Rightarrow> nat option \<Rightarrow> ArcGisDatasetConfig" where
  "example_config pageSize maxPages maxRecords =
     \<lparr>cfg_id = policeDistricts, cfg_sourceUrl = ''https://example.test/FeatureServer/0/query'',
      cfg_mode = ModeLayer, cfg_queryParams = None, cfg_pageSize = pageSize,
      cfg_maxPages = maxPages, cfg_maxRecords = maxRecords, cfg_datasetTag = None,
      cfg_warning = None\<rparr>"

text \<open>Three pages of two features each; the count probe reports 5.\<close>

definition two_features :: "feature list" where
  "two_features = [blank_feature, blank_feature]"

definition scenario_net :: "arcgis_json net" where
  "scenario_net =
     \<lparr>server = scripted_server (Some (JNum (Finite 5)))
                 [(two_features, None), (two_features, None), (two_features, None)],
      traffic = []\<rparr>"

text \<open>
  A transit environment whose documents are the records they normalize to, and an upstream
  that replays a list of answers in order and is unreachable afterwards.
\<close>

type_synonym example_doc = "LocalTransitVehicle list \<times> LocalTransitAlert list"

definition example_alert :: "string \<Rightarrow> LocalTransitAlert" where
  "example_alert title =
     \<lparr>alert_id = ''amtrak-0-https://www.amtrak.com/alert.html'', alert_source = source_amtrak,
      alert_mode = amtrak, alert_title = title, alert_description = [],
      alert_severity = info, alert_updatedAt = None,
      alert_url = ''https://www.amtrak.com/alert.html''\<rparr>"

definition example_env :: "example_doc transit_env" where
  "example_env =
     \<lparr>MBTA_API_KEY = [], AMTRAK_FEED_OVERRIDE = [],
      parseMbtaError = (\<lambda>body. []),
      asRecord = (\<lambda>doc. True),
      vehiclesFromMbtaV3 = fst, vehiclesFromGtfsEnhanced = fst,
      normalizeAlertsFromMbtaV3 = snd, normalizeAlertsFromGtfsEnhanced = snd,
      parseAmtrakFeed = (\<lambda>xml. if xml = [] then [] else [example_alert xml]),
      encodeURIComponent = (\<lambda>s. s),
      fetchMbtaLines = (\<lambda>vs ws net. (Inr [], ws, net))\<rparr>"

definition example_vehicle :: "string \<Rightarrow> LocalTransitVehicle" where
  "example_vehicle name =
     \<lparr>vehicle_id = name, vehicle_mode = subway, vehicle_routeId = ''Red'',
      vehicle_routeLabel = ''Red Line'', vehicle_status = ''IN_TRANSIT_TO'',
      vehicle_lat = 42.36, vehicle_lon = - 71.06, vehicle_bearing = None,
      vehicle_updatedAt = None\<rparr>"

definition four_vehicles :: "LocalTransitVehicle list" where
  "four_vehicles =
     [example_vehicle ''a'', example_vehicle ''b'', example_vehicle ''c'', example_vehicle ''d'']"

definition replay_server ::
  "'j fetch_outcome list \<Rightarrow> (request \<times> 'j fetch_outcome) list \<Rightarrow> request \<Rightarrow> 'j fetch_outcome" where
  "replay_server outs hist req =
     (if length hist < length outs then outs ! length hist else Rejected ''Failed to fetch'')"

definition ok_text :: "string \<Rightarrow> 'j fetch_outcome" where
  "ok_text xml = Fulfilled \<lparr>status = 200, body_text = xml, body_json = Inl ''Unexpected token''\<rparr>"

text \<open>The primary query finds no vehicle, the fallback query finds four.\<close>

definition fallback_net :: "example_doc net" where
  "fallback_net =
     \<lparr>server = replay_server [ok_json ([], []), ok_json (four_vehicles, [])], traffic = []\<rparr>"

text \<open>The primary query finds no alert, the fallback query finds one.\<close>

definition alert_fallback_net :: "example_doc net" where
  "alert_fallback_net =
     \<lparr>server = replay_server [ok_json ([], []), ok_json ([], [example_alert ''Delay'']) ],
      traffic = []\<rparr>"

text \<open>
  Both queries are answered and find nothing, and the GTFS feed has four vehicles and an
  alert; and an upstream whose three tiers are all answered and all find nothing.
\<close>

definition gtfs_net :: "example_doc net" where
  "gtfs_net =
     \<lparr>server = replay_server
        [ok_json ([], []), ok_json ([], []), ok_json (four_vehicles, [example_alert ''Delay''])],
      traffic = []\<rparr>"

definition empty_net :: "example_doc net" where
  "empty_net =
     \<lparr>server = replay_server [ok_json ([], []), ok_json ([], []), ok_json ([], [])],
      traffic = []\<rparr>"

text \<open>No request is answered.\<close>

definition offline_net :: "example_doc net" where
  "offline_net = \<lparr>server = replay_server [], traffic = []\<rparr>"

text \<open>The first answer already has what is asked for: four vehicles, an alert, a feed.\<close>

definition primary_net :: "example_doc net" where
  "primary_net =
     \<lparr>server = replay_server
        [Fulfilled \<lparr>status = 200, body_text = ''Boston service alert'',
                    body_json = Inr (four_vehicles, [example_alert ''Delay''])\<rparr>],
      traffic = []\<rparr>"

text \<open>
  A runtime that parses no number and no date; the examples that use it read neither and
  take no product.
\<close>

definition example_runtime :: js_runtime where
  "example_runtime =
     \<lparr>StringToNumber = (\<lambda>s. NaN), NumberToString = (\<lambda>n. ''NaN''),
      ObjectToString = (\<lambda>v. ''[object Object]''), Date_parse = (\<lambda>s. None),
      Date_toISOString = (\<lambda>t. ''1970-01-01T00:00:00.000Z''),
      NumberMultiply = (\<lambda>x y. NaN)\<rparr>"

text \<open>
  Page size 2. Two pages of one feature that both signal the transfer limit, then an
  empty page; the count probe returns no count.
\<close>

definition flagged_net :: "arcgis_json net" where
  "flagged_net =
     \<lparr>server = scripted_server None
                 [([blank_feature], Some True), ([blank_feature], Some True), ([], None)],
      traffic = []\<rparr>"

text \<open>
  Page size 2. A full page that signals the transfer limit, a page of one feature that
  does not, and a third page that is there to be fetched; the count probe reports 10.
\<close>

definition unflagged_short_net :: "arcgis_json net" where
  "unflagged_short_net =
     \<lparr>server = scripted_server (Some (JNum (Finite 10)))
                 [(two_features, Some True), ([blank_feature], None), (two_features, None)],
      traffic = []\<rparr>"

text \<open>The count probe succeeds and the first page request is answered with status 500.\<close>

definition failing_net :: "arcgis_json net" where
  "failing_net =
     \<lparr>server = (\<lambda>hist req.
         if hist = [] then ok_json \<lparr>json_count = Some (JNum (Finite 5)), json_features = None,
                                   json_exceededTransferLimit = None\<rparr>
         else Fulfilled \<lparr>status = 500, body_text = ''Internal Server Error'',
                         body_json = Inl ''Unexpected token''\<rparr>),
      traffic = []\<rparr>"

definition stub_payload :: BostonDatasetPayload where
  "stub_payload =
     \<lparr>incidents = Some [], layer = None,
      provenance = \<lparr>datasetId = crimeIncidents, sourceUrl = cfg_sourceUrl (DATASETS crimeIncidents),
                    fetchedAt = ''2024-01-01T00:00:00.000Z'', recordCount = 0,
                    queryParams = [], warnings = []\<rparr>\<rparr>"

definition old_cache :: "BostonDatasetPayload cache" where
  "old_cache = [cacheKey crimeIncidents \<mapsto> stub_payload]"

text \<open>Answers to the three fetches of a transit refresh: vehicles, an alert, a feed.\<close>

definition transit_net :: "example_doc net" where
  "transit_net =
     \<lparr>server = replay_server
        [ok_json (four_vehicles, []), ok_json ([], [example_alert ''Delay'']),
         ok_text ''Boston service alert''],
      traffic = []\<rparr>"

text \<open>
  The paging loop on its own: the state in which it starts, a page of one feature that
  signals the transfer limit, and an upstream that serves that page twice.
\<close>

definition example_url :: string where
  "example_url = ''https://example.test/FeatureServer/0/query''"

definition paging_start :: paging where
  "paging_start =
     \<lparr>offset = 0, allFeatures = [], hasMore = True, pageGuard = 0,
      sawExceededTransferLimit = False, page_warnings = []\<rparr>"

definition flagged_page :: arcgis_page where
  "flagged_page = \<lparr>page_features = [blank_feature], page_exceededTransferLimit = Some True\<rparr>"

definition unflagged_page :: arcgis_page where
  "unflagged_page = \<lparr>page_features = [blank_feature], page_exceededTransferLimit = None\<rparr>"

definition flagged_json :: arcgis_json where
  "flagged_json =
     \<lparr>json_count = None, json_features = Some [blank_feature],
      json_exceededTransferLimit = Some True\<rparr>"

definition paging_net :: "arcgis_json net" where
  "paging_net = \<lparr>server = replay_server [ok_json flagged_json, ok_json flagged_json], traffic = []\<rparr>"

section \<open>The paging loop: invariants\<close>

lemma pageGuard_acceptPage: "pageGuard (acceptPage ps m c st page) = pageGuard st + 1"
  by (auto simp: acceptPage_def Let_def)

text \<open>
  The rule for the loop: what holds before it and is kept by every accepted page holds when
  the loop has ended without an error, and the loop condition is then false.
\<close>

lemma fetchPages_invariant:
  assumes "fetchPages u q ps mp m c net st = (Inr st', net')"
    and "P net st"
    and step: "\<And>net st page net1. P net st \<Longrightarrow> hasMore st \<Longrightarrow> pageGuard st < mp \<Longrightarrow>
           fetchArcGisPage net u q (offset st) ps = (Inr page, net1) \<Longrightarrow>
           P net1 (acceptPage ps m c st page)"
  shows "P net' st' \<and> \<not> (hasMore st' \<and> pageGuard st' < mp)"
  using assms
proof (induction u q ps mp m c net st rule: fetchPages.induct)
  case (1 u q ps mp m c net st)
  show ?case
  proof (cases "hasMore st \<and> pageGuard st < mp")
    case False
    with "1.prems" show ?thesis by (simp add: fetchPages.simps)
  next
    case True
    obtain r net1 where f: "fetchArcGisPage net u q (offset st) ps = (r, net1)" by force
    show ?thesis
    proof (cases r)
      case (Inl e)
      with True f "1.prems" show ?thesis by (simp add: fetchPages.simps)
    next
      case (Inr page)
      with True f "1.prems" have
        "fetchPages u q ps mp m c net1 (acceptPage ps m c st page) = (Inr st', net')"
        by (simp add: fetchPages.simps)
      moreover have "P net1 (acceptPage ps m c st page)"
        using "1.prems"(3)[OF "1.prems"(2)] True f Inr by blast
      ultimately show ?thesis
        using "1.IH"[OF True f[symmetric] Inr] "1.prems"(3) by blast
    qed
  qed
qed

lemma fetchPages_pageGuard_grows:
  assumes "fetchPages u q ps mp m c net st = (Inr st', net')"
  shows "pageGuard st \<le> pageGuard st'"
proof -
  have "pageGuard st \<le> pageGuard st' \<and> \<not> (hasMore st' \<and> pageGuard st' < mp)"
    by (rule fetchPages_invariant[OF assms, where P = "\<lambda>n s. pageGuard st \<le> pageGuard s"])
       (simp_all add: pageGuard_acceptPage)
  then show ?thesis ..
qed

lemma fetchPages_enters:
  assumes "fetchPages u q ps mp m c net st = (Inr st', net')" "hasMore st" "pageGuard st < mp"
  shows "pageGuard st < pageGuard st'"
proof -
  obtain r net1 where f: "fetchArcGisPage net u q (offset st) ps = (r, net1)" by force
  show ?thesis
  proof (cases r)
    case (Inl e)
    with assms f show ?thesis by (simp add: fetchPages.simps)
  next
    case (Inr page)
    with assms f have
      "fetchPages u q ps mp m c net1 (acceptPage ps m c st page) = (Inr st', net')"
      by (simp add: fetchPages.simps)
    from fetchPages_pageGuard_grows[OF this] show ?thesis by (simp add: pageGuard_acceptPage)
  qed
qed

lemma isBounded_boundedWarning: "isBoundedWarning (boundedWarning m)"
  by (simp add: isBoundedWarning_def boundedWarning_def startsWith_def)

lemma not_bounded_others:
  "\<not> isBoundedWarning countWarning" "\<not> isBoundedWarning (cappedWarning n)"
  "\<not> isBoundedWarning transferLimitWarning"
  by (simp_all add: isBoundedWarning_def countWarning_def cappedWarning_def
        transferLimitWarning_def startsWith_def)

lemma length_slice0:
  "enat (length xs) \<le> m \<Longrightarrow>
   enat (length (xs @ slice0 ys (max 0 (m - enat (length xs))))) \<le> m"
  by (cases m) (auto simp: slice0_def)

lemma acceptPage_inv:
  assumes "paging_inv m st" "hasMore st"
  shows "paging_inv m (acceptPage ps m c st page)"
  using assms length_slice0[of "allFeatures st" m "page_features page"]
  unfolding paging_inv_def acceptPage_def Let_def
  by (auto simp: isBounded_boundedWarning not_le)

lemma fetchPages_paging_inv:
  assumes "fetchPages u q ps mp m c net st = (Inr st', net')" "paging_inv m st"
  shows "paging_inv m st'"
proof -
  have "paging_inv m st' \<and> \<not> (hasMore st' \<and> pageGuard st' < mp)"
    by (rule fetchPages_invariant[OF assms(1), where P = "\<lambda>n s. paging_inv m s"])
       (simp_all add: assms(2) acceptPage_inv)
  then show ?thesis ..
qed

text \<open>What \<open>fetchArcGisFeatureCollection\<close> returns, in terms of the final loop state.\<close>

lemma fetchArcGisFeatureCollection_Inr:
  assumes "fetchArcGisFeatureCollection net config = (Inr r, net')"
  obtains count net1 st where
    "fetchArcGisCount net (cfg_sourceUrl config)
       (spread [(''where'', QString ''1=1''), (''outFields'', QString ''*''),
                (''returnGeometry'', QBoolean True), (''outSR'', QNumber 4326)]
               (case cfg_queryParams config of Some q \<Rightarrow> q | None \<Rightarrow> [])) = (Inr count, net1)"
    "fetchPages (cfg_sourceUrl config)
       (spread [(''where'', QString ''1=1''), (''outFields'', QString ''*''),
                (''returnGeometry'', QBoolean True), (''outSR'', QNumber 4326)]
               (case cfg_queryParams config of Some q \<Rightarrow> q | None \<Rightarrow> []))
       (case cfg_pageSize config of Some n \<Rightarrow> n | None \<Rightarrow> DEFAULT_PAGE_SIZE)
       (case cfg_maxPages config of Some n \<Rightarrow> n | None \<Rightarrow> 100)
       (case cfg_maxRecords config of Some n \<Rightarrow> enat n | None \<Rightarrow> \<infinity>)
       count net1
       \<lparr>offset = 0, allFeatures = [], hasMore = True, pageGuard = 0,
        sawExceededTransferLimit = False,
        page_warnings = (if count = None then [countWarning] else [])\<rparr> = (Inr st, net')"
    "features (fc_layer r) = allFeatures st"
    "fc_warnings r = page_warnings st
       @ (if (case cfg_maxPages config of Some n \<Rightarrow> n | None \<Rightarrow> 100) \<le> pageGuard st
          then [cappedWarning (case cfg_maxPages config of Some n \<Rightarrow> n | None \<Rightarrow> 100)] else [])
       @ (if sawExceededTransferLimit st then [transferLimitWarning] else [])"
  using assms unfolding fetchArcGisFeatureCollection_def Let_def layerCollection_def
  by (auto split: prod.splits sum.splits)

lemmas run_simps =
  fetchArcGisFeatureCollection_def example_config_def scenario_net_def
  scripted_server_def ok_json_def fetchArcGisCount_def fetchArcGisPage_def fetch_def
  response_ok_def spread_def fetchPages.simps acceptPage_def Let_def slice0_def
  layerCollection_def DEFAULT_PAGE_SIZE_def length_ge_def two_features_def
  boundedWarning_def cappedWarning_def String_enat_def String_nat.simps

section \<open>The tiered fetches: one request per tier, in order\<close>

lemma fetchMbtaJson_traffic:
  "fetchMbtaJson E net url query = (r, net1) \<Longrightarrow>
   net1 = net\<lparr>traffic := traffic net @ [exchange net (Request url query)]\<rparr>"
  by (auto simp: fetchMbtaJson_def fetch_def exchange_def Let_def
           split: fetch_outcome.splits if_splits sum.splits)

lemma fetchJson_traffic:
  "fetchJson E net url = (r, net1) \<Longrightarrow>
   net1 = net\<lparr>traffic := traffic net @ [exchange net (Request url [])]\<rparr>"
  by (auto simp: fetchJson_def fetch_def exchange_def Let_def
           split: fetch_outcome.splits if_splits sum.splits)

lemma vehicles_tier1:
  assumes "fetchMbtaJson E net MBTA_VEHICLES_URL (vehiclePrimaryQuery E) = (r1, net1)"
    and "usableVehicles E r1"
  shows "fetchMbtaVehicles E net ws = (vehiclesFromMbtaV3 E (projr r1), ws, net1)"
  using assms by (cases r1) (auto simp: fetchMbtaVehicles_def usableVehicles_def Let_def)

lemma vehicles_tier2:
  assumes "fetchMbtaJson E net MBTA_VEHICLES_URL (vehiclePrimaryQuery E) = (r1, net1)"
    and "\<not> usableVehicles E r1"
    and "fetchMbtaJson E net1 MBTA_VEHICLES_URL (vehicleFallbackQuery E) = (r2, net2)"
    and "usableVehicles E r2"
  shows "fetchMbtaVehicles E net ws = (vehiclesFromMbtaV3 E (projr r2), ws, net2)"
  using assms
  by (cases r1; cases r2)
     (auto simp: fetchMbtaVehicles_def usableVehicles_def Let_def split: error.splits)

lemma vehicles_tier3:
  assumes "fetchMbtaJson E net MBTA_VEHICLES_URL (vehiclePrimaryQuery E) = (r1, net1)"
    and "\<not> usableVehicles E r1"
    and "fetchMbtaJson E net1 MBTA_VEHICLES_URL (vehicleFallbackQuery E) = (r2, net2)"
    and "\<not> usableVehicles E r2"
    and "fetchJson E net2 MBTA_GTFS_VEHICLES_ENHANCED_URL = (r3, net3)"
  shows "snd (snd (fetchMbtaVehicles E net ws)) = net3"
  using assms
  by (cases r1; cases r2; cases r3)
     (auto simp: fetchMbtaVehicles_def usableVehicles_def Let_def split: error.splits)

lemma alerts_tier1:
  assumes "fetchMbtaJson E net MBTA_ALERTS_URL (alertPrimaryQuery E) = (r1, net1)"
    and "usableAlerts E r1"
  shows "fetchMbtaAlerts E net ws = (normalizeAlertsFromMbtaV3 E (projr r1), ws, net1)"
  using assms by (cases r1) (auto simp: fetchMbtaAlerts_def usableAlerts_def Let_def)

lemma alerts_tier2:
  assumes "fetchMbtaJson E net MBTA_ALERTS_URL (alertPrimaryQuery E) = (r1, net1)"
    and "\<not> usableAlerts E r1"
    and "fetchMbtaJson E net1 MBTA_ALERTS_URL (alertFallbackQuery E) = (r2, net2)"
    and "usableAlerts E r2"
  shows "fetchMbtaAlerts E net ws = (normalizeAlertsFromMbtaV3 E (projr r2), ws, net2)"
  using assms
  by (cases r1; cases r2)
     (auto simp: fetchMbtaAlerts_def usableAlerts_def Let_def split: error.splits)

lemma alerts_tier3:
  assumes "fetchMbtaJson E net MBTA_ALERTS_URL (alertPrimaryQuery E) = (r1, net1)"
    and "\<not> usableAlerts E r1"
    and "fetchMbtaJson E net1 MBTA_ALERTS_URL (alertFallbackQuery E) = (r2, net2)"
    and "\<not> usableAlerts E r2"
    and "fetchJson E net2 MBTA_GTFS_ALERTS_ENHANCED_URL = (r3, net3)"
  shows "snd (snd (fetchMbtaAlerts E net ws)) = net3"
  using assms
  by (cases r1; cases r2; cases r3)
     (auto simp: fetchMbtaAlerts_def usableAlerts_def Let_def split: error.splits)

lemma amtrak_usable:
  assumes "fetch net (proxied E candidate) = (out, net1)" and "usableFeed E out"
  shows "\<exists>result ws1. amtrakCandidates E (candidate # rest) failures ws net
                          = (Some result, failures, ws1, net1)
                        \<and> amtrak_sourceUrl result = candidate"
  using assms
  by (cases out) (auto simp: usableFeed_def proxied_def Let_def)

lemma amtrak_unusable:
  assumes "fetch net (proxied E candidate) = (out, net1)" and "\<not> usableFeed E out"
  shows "\<exists>note. amtrakCandidates E (candidate # rest) failures ws net
                  = amtrakCandidates E rest (failures @ [note]) ws net1"
  using assms
  by (cases out) (auto simp: usableFeed_def proxied_def Let_def)

text \<open>
  The third tier, and the end of the function when no tier was usable: then, and only
  then, the attempt notes are joined and pushed to the warnings.
\<close>

lemma vehicleQueries_unusable:
  assumes "fetchMbtaJson E net MBTA_VEHICLES_URL query = (r, net1)" and "\<not> usableVehicles E r"
  shows "vehicleQueries E ((label, query) # rest) notes net
           = vehicleQueries E rest (notes @ [vehicleQueryNote label r]) net1"
  using assms
  by (cases r) (auto simp: usableVehicles_def vehicleQueryNote_def Let_def split: error.splits)

lemma alertQueries_unusable:
  assumes "fetchMbtaJson E net MBTA_ALERTS_URL query = (r, net1)" and "\<not> usableAlerts E r"
  shows "alertQueries E ((label, query) # rest) notes net
           = alertQueries E rest (notes @ [alertQueryNote label r]) net1"
  using assms
  by (cases r) (auto simp: usableAlerts_def alertQueryNote_def Let_def split: error.splits)

lemma vehicles_queries_none:
  assumes "fetchMbtaJson E net MBTA_VEHICLES_URL (vehiclePrimaryQuery E) = (r1, net1)"
    and "\<not> usableVehicles E r1"
    and "fetchMbtaJson E net1 MBTA_VEHICLES_URL (vehicleFallbackQuery E) = (r2, net2)"
    and "\<not> usableVehicles E r2"
  shows "vehicleQueries E
           [(''filtered'', vehiclePrimaryQuery E), (''fallback'', vehicleFallbackQuery E)] [] net
         = (None, [vehicleQueryNote ''filtered'' r1, vehicleQueryNote ''fallback'' r2], net2)"
  by (simp only: vehicleQueries_unusable[OF assms(1,2)] vehicleQueries_unusable[OF assms(3,4)]
        vehicleQueries.simps(1) append_Nil append_Cons)

lemma alerts_queries_none:
  assumes "fetchMbtaJson E net MBTA_ALERTS_URL (alertPrimaryQuery E) = (r1, net1)"
    and "\<not> usableAlerts E r1"
    and "fetchMbtaJson E net1 MBTA_ALERTS_URL (alertFallbackQuery E) = (r2, net2)"
    and "\<not> usableAlerts E r2"
  shows "alertQueries E
           [(''filtered'', alertPrimaryQuery E), (''fallback'', alertFallbackQuery E)] [] net
         = (None, [alertQueryNote ''filtered'' r1, alertQueryNote ''fallback'' r2], net2)"
  by (simp only: alertQueries_unusable[OF assms(1,2)] alertQueries_unusable[OF assms(3,4)]
        alertQueries.simps(1) append_Nil append_Cons)

lemma vehicles_gtfs:
  assumes "fetchMbtaJson E net MBTA_VEHICLES_URL (vehiclePrimaryQuery E) = (r1, net1)"
    and "\<not> usableVehicles E r1"
    and "fetchMbtaJson E net1 MBTA_VEHICLES_URL (vehicleFallbackQuery E) = (r2, net2)"
    and "\<not> usableVehicles E r2"
    and "fetchJson E net2 MBTA_GTFS_VEHICLES_ENHANCED_URL = (r3, net3)"
    and "usableGtfsVehicles E r3"
  shows "fetchMbtaVehicles E net ws = (vehiclesFromGtfsEnhanced E (projr r3), ws, net3)"
  using assms(5,6) unfolding fetchMbtaVehicles_def vehicles_queries_none[OF assms(1-4)]
  by (cases r3) (simp_all add: usableGtfsVehicles_def Let_def)

lemma vehicles_none:
  assumes "fetchMbtaJson E net MBTA_VEHICLES_URL (vehiclePrimaryQuery E) = (r1, net1)"
    and "\<not> usableVehicles E r1"
    and "fetchMbtaJson E net1 MBTA_VEHICLES_URL (vehicleFallbackQuery E) = (r2, net2)"
    and "\<not> usableVehicles E r2"
    and "fetchJson E net2 MBTA_GTFS_VEHICLES_ENHANCED_URL = (r3, net3)"
    and "\<not> usableGtfsVehicles E r3"
  shows "fetchMbtaVehicles E net ws =
           ([],
            ws @ [join [vehicleQueryNote ''filtered'' r1, vehicleQueryNote ''fallback'' r2,
                        vehicleGtfsNote r3] '' | ''],
            net3)"
  using assms(5,6) unfolding fetchMbtaVehicles_def vehicles_queries_none[OF assms(1-4)]
  by (cases r3)
     (simp_all add: usableGtfsVehicles_def vehicleGtfsNote_def Let_def split: error.splits)

lemma alerts_gtfs:
  assumes "fetchMbtaJson E net MBTA_ALERTS_URL (alertPrimaryQuery E) = (r1, net1)"
    and "\<not> usableAlerts E r1"
    and "fetchMbtaJson E net1 MBTA_ALERTS_URL (alertFallbackQuery E) = (r2, net2)"
    and "\<not> usableAlerts E r2"
    and "fetchJson E net2 MBTA_GTFS_ALERTS_ENHANCED_URL = (r3, net3)"
    and "usableGtfsAlerts E r3"
  shows "fetchMbtaAlerts E net ws = (normalizeAlertsFromGtfsEnhanced E (projr r3), ws, net3)"
  using assms(5,6) unfolding fetchMbtaAlerts_def alerts_queries_none[OF assms(1-4)]
  by (cases r3) (simp_all add: usableGtfsAlerts_def Let_def)

lemma alerts_none:
  assumes "fetchMbtaJson E net MBTA_ALERTS_URL (alertPrimaryQuery E) = (r1, net1)"
    and "\<not> usableAlerts E r1"
    and "fetchMbtaJson E net1 MBTA_ALERTS_URL (alertFallbackQuery E) = (r2, net2)"
    and "\<not> usableAlerts E r2"
    and "fetchJson E net2 MBTA_GTFS_ALERTS_ENHANCED_URL = (r3, net3)"
    and "\<not> usableGtfsAlerts E r3"
  shows "fetchMbtaAlerts E net ws =
           ([],
            ws @ [join [alertQueryNote ''filtered'' r1, alertQueryNote ''fallback'' r2,
                        alertGtfsNote r3] '' | ''],
            net3)"
  using assms(5,6) unfolding fetchMbtaAlerts_def alerts_queries_none[OF assms(1-4)]
  by (cases r3)
     (simp_all add: usableGtfsAlerts_def alertGtfsNote_def Let_def split: error.splits)

text \<open>Records are returned without a change of the warnings.\<close>

lemma vehicles_warnings:
  assumes "fst (fetchMbtaVehicles E net ws) \<noteq> []"
  shows "fst (snd (fetchMbtaVehicles E net ws)) = ws"
proof -
  obtain r1 net1 where f1: "fetchMbtaJson E net MBTA_VEHICLES_URL (vehiclePrimaryQuery E) = (r1, net1)"
    by (cases "fetchMbtaJson E net MBTA_VEHICLES_URL (vehiclePrimaryQuery E)")
  obtain r2 net2 where
    f2: "fetchMbtaJson E net1 MBTA_VEHICLES_URL (vehicleFallbackQuery E) = (r2, net2)"
    by (cases "fetchMbtaJson E net1 MBTA_VEHICLES_URL (vehicleFallbackQuery E)")
  obtain r3 net3 where f3: "fetchJson E net2 MBTA_GTFS_VEHICLES_ENHANCED_URL = (r3, net3)"
    by (cases "fetchJson E net2 MBTA_GTFS_VEHICLES_ENHANCED_URL")
  consider "usableVehicles E r1"
    | "\<not> usableVehicles E r1" "usableVehicles E r2"
    | "\<not> usableVehicles E r1" "\<not> usableVehicles E r2" "usableGtfsVehicles E r3"
    | "\<not> usableVehicles E r1" "\<not> usableVehicles E r2" "\<not> usableGtfsVehicles E r3"
    by blast
  then show ?thesis
  proof cases
    case 1
    then show ?thesis by (simp add: vehicles_tier1[OF f1])
  next
    case 2
    then show ?thesis by (simp add: vehicles_tier2[OF f1 _ f2])
  next
    case 3
    then show ?thesis by (simp add: vehicles_gtfs[OF f1 _ f2 _ f3])
  next
    case 4
    with assms show ?thesis by (simp add: vehicles_none[OF f1 _ f2 _ f3])
  qed
qed

lemma alerts_warnings:
  assumes "fst (fetchMbtaAlerts E net ws) \<noteq> []"
  shows "fst (snd (fetchMbtaAlerts E net ws)) = ws"
proof -
  obtain r1 net1 where f1: "fetchMbtaJson E net MBTA_ALERTS_URL (alertPrimaryQuery E) = (r1, net1)"
    by (cases "fetchMbtaJson E net MBTA_ALERTS_URL (alertPrimaryQuery E)")
  obtain r2 net2 where
    f2: "fetchMbtaJson E net1 MBTA_ALERTS_URL (alertFallbackQuery E) = (r2, net2)"
    by (cases "fetchMbtaJson E net1 MBTA_ALERTS_URL (alertFallbackQuery E)")
  obtain r3 net3 where f3: "fetchJson E net2 MBTA_GTFS_ALERTS_ENHANCED_URL = (r3, net3)"
    by (cases "fetchJson E net2 MBTA_GTFS_ALERTS_ENHANCED_URL")
  consider "usableAlerts E r1"
    | "\<not> usableAlerts E r1" "usableAlerts E r2"
    | "\<not> usableAlerts E r1" "\<not> usableAlerts E r2" "usableGtfsAlerts E r3"
    | "\<not> usableAlerts E r1" "\<not> usableAlerts E r2" "\<not> usableGtfsAlerts E r3"
    by blast
  then show ?thesis
  proof cases
    case 1
    then show ?thesis by (simp add: alerts_tier1[OF f1])
  next
    case 2
    then show ?thesis by (simp add: alerts_tier2[OF f1 _ f2])
  next
    case 3
    then show ?thesis by (simp add: alerts_gtfs[OF f1 _ f2 _ f3])
  next
    case 4
    with assms show ?thesis by (simp add: alerts_none[OF f1 _ f2 _ f3])
  qed
qed

lemmas transit_run_simps =
  fetchMbtaVehicles_def fetchMbtaAlerts_def fetchAmtrakAlerts_def fetchMbtaJson_def fetchJson_def
  fetch_def example_env_def fallback_net_def alert_fallback_net_def primary_net_def
  gtfs_net_def empty_net_def
  offline_net_def replay_server_def ok_json_def ok_text_def response_ok_def Let_def

section \<open>The traffic of a paginated fetch\<close>

text \<open>
  Every page request adds one exchange to the traffic. A fetch that returns has accepted
  every page it requested; a fetch that fails has accepted all but the last, whose error
  it throws.
\<close>

lemma fetchArcGisPage_exchange:
  assumes "fetchArcGisPage net u q off limit = (r, net1)"
  obtains x where "net1 = net\<lparr>traffic := traffic net @ [x]\<rparr>" "pageOutcome (snd x) = r"
  using assms
  by (auto simp: fetchArcGisPage_def fetch_def pageOutcome_def Let_def
           split: fetch_outcome.splits if_splits sum.splits)

lemma fetchArcGisCount_exchange:
  assumes "fetchArcGisCount net u q = (r, net1)"
  obtains x where "net1 = net\<lparr>traffic := traffic net @ [x]\<rparr>"
  using assms
  by (auto simp: fetchArcGisCount_def fetch_def Let_def
           split: fetch_outcome.splits if_splits sum.splits option.splits jsval.splits)

lemma fetchPages_traffic:
  "fetchPages u q ps mp m c net st = (res, net') \<Longrightarrow>
   \<exists>xs. traffic net' = traffic net @ xs \<and>
        (case res of
           Inr st' \<Rightarrow> list_all pageAccepted xs
         | Inl e \<Rightarrow> xs \<noteq> [] \<and> list_all pageAccepted (butlast xs)
                    \<and> pageOutcome (snd (last xs)) = Inl e)"
proof (induction u q ps mp m c net st rule: fetchPages.induct)
  case (1 u q ps mp m c net st)
  show ?case
  proof (cases "hasMore st \<and> pageGuard st < mp")
    case False
    with "1.prems" show ?thesis by (auto simp: fetchPages.simps)
  next
    case True
    obtain r net1 where f: "fetchArcGisPage net u q (offset st) ps = (r, net1)" by force
    from fetchArcGisPage_exchange[OF f] obtain x where
      x: "net1 = net\<lparr>traffic := traffic net @ [x]\<rparr>" "pageOutcome (snd x) = r" by blast
    show ?thesis
    proof (cases r)
      case (Inl e)
      with True f "1.prems" have "res = Inl e" "net' = net1" by (simp_all add: fetchPages.simps)
      with x Inl show ?thesis by (intro exI[of _ "[x]"]) simp
    next
      case (Inr page)
      with True f "1.prems" have
        "fetchPages u q ps mp m c net1 (acceptPage ps m c st page) = (res, net')"
        by (simp add: fetchPages.simps)
      from "1.IH"[OF True f[symmetric] Inr this] obtain ys where
        ys: "traffic net' = traffic net1 @ ys"
          "case res of
             Inr st' \<Rightarrow> list_all pageAccepted ys
           | Inl e \<Rightarrow> ys \<noteq> [] \<and> list_all pageAccepted (butlast ys)
                      \<and> pageOutcome (snd (last ys)) = Inl e" by blast
      have ok: "pageAccepted x" using x Inr by (simp add: pageAccepted_def)
      show ?thesis
      proof (intro exI[of _ "x # ys"] conjI)
        show "traffic net' = traffic net @ x # ys" using ys(1) x(1) by simp
        show "case res of
             Inr st' \<Rightarrow> list_all pageAccepted (x # ys)
           | Inl e \<Rightarrow> x # ys \<noteq> [] \<and> list_all pageAccepted (butlast (x # ys))
                      \<and> pageOutcome (snd (last (x # ys))) = Inl e"
          using ys(2) ok by (cases res) auto
      qed
    qed
  qed
qed

lemma fetchArcGisFeatureCollection_traffic:
  assumes "fetchArcGisFeatureCollection net config = (res, net')"
  shows "case res of
           Inr r \<Rightarrow> list_all pageAccepted (pageExchanges net net')
         | Inl e \<Rightarrow> list_all pageAccepted (butlast (pageExchanges net net'))
                    \<and> (pageExchanges net net' \<noteq> [] \<longrightarrow>
                         pageOutcome (snd (last (pageExchanges net net'))) = Inl e)"
proof -
  define qp where "qp = spread [(''where'', QString ''1=1''), (''outFields'', QString ''*''),
                (''returnGeometry'', QBoolean True), (''outSR'', QNumber 4326)]
               (case cfg_queryParams config of Some q \<Rightarrow> q | None \<Rightarrow> [])"
  obtain cr net1 where c: "fetchArcGisCount net (cfg_sourceUrl config) qp = (cr, net1)" by force
  from fetchArcGisCount_exchange[OF c] obtain x where
    x: "net1 = net\<lparr>traffic := traffic net @ [x]\<rparr>" by blast
  show ?thesis
  proof (cases cr)
    case (Inl e)
    with assms c have "res = Inl e" "net' = net1"
      by (simp_all add: fetchArcGisFeatureCollection_def qp_def Let_def)
    with x show ?thesis by (simp add: pageExchanges_def)
  next
    case (Inr count)
    define st0 where "st0 = \<lparr>offset = 0, allFeatures = [], hasMore = True, pageGuard = 0,
        sawExceededTransferLimit = False,
        page_warnings = (if count = None then [countWarning] else [])\<rparr>"
    obtain pr net2 where p: "fetchPages (cfg_sourceUrl config) qp
       (case cfg_pageSize config of Some n \<Rightarrow> n | None \<Rightarrow> DEFAULT_PAGE_SIZE)
       (case cfg_maxPages config of Some n \<Rightarrow> n | None \<Rightarrow> 100)
       (case cfg_maxRecords config of Some n \<Rightarrow> enat n | None \<Rightarrow> \<infinity>)
       count net1 st0 = (pr, net2)" by force
    from assms c Inr p have n: "net' = net2"
      and r: "case pr of Inl e \<Rightarrow> res = Inl e | Inr st \<Rightarrow> (\<exists>r. res = Inr r)"
      by (auto simp: fetchArcGisFeatureCollection_def qp_def st0_def Let_def split: sum.splits)
    from fetchPages_traffic[OF p] obtain xs where
      xs: "traffic net2 = traffic net1 @ xs"
        "case pr of
           Inr st' \<Rightarrow> list_all pageAccepted xs
         | Inl e \<Rightarrow> xs \<noteq> [] \<and> list_all pageAccepted (butlast xs)
                    \<and> pageOutcome (snd (last xs)) = Inl e" by blast
    have "pageExchanges net net' = xs"
      using xs(1) x n by (simp add: pageExchanges_def)
    with xs(2) r show ?thesis by (cases pr) (auto simp: list_all_iff dest: in_set_butlastD)
  qed
qed

lemma non2xx_outcome:
  "non2xx out \<Longrightarrow> \<exists>st. pageOutcome out = Inl (Error (''ArcGIS request failed ('' @ String_nat st @ '')''))"
  by (cases out) (auto simp: non2xx_def pageOutcome_def)

lemma failed_page_is_last:
  assumes "list_all pageAccepted (butlast xs)" "x \<in> set xs" "\<not> pageAccepted x"
  shows "xs \<noteq> [] \<and> x = last xs"
proof -
  from assms(2) have ne: "xs \<noteq> []" by auto
  then have "xs = butlast xs @ [last xs]" by simp
  then have "x \<in> set (butlast xs) \<or> x = last xs"
    using assms(2) by (metis Un_iff empty_iff insert_iff list.set(1,2) set_append)
  with assms(1,3) ne show ?thesis by (auto simp: list_all_iff)
qed

section \<open>The transfer-limit flag\<close>

lemma transferLimitWarning_distinct:
  "boundedWarning m \<noteq> transferLimitWarning" "cappedWarning n \<noteq> transferLimitWarning"
  "countWarning \<noteq> transferLimitWarning"
  by (simp_all add: boundedWarning_def cappedWarning_def countWarning_def transferLimitWarning_def)

lemma acceptPage_transfer:
  "sawExceededTransferLimit (acceptPage ps m c st page)
     = (page_exceededTransferLimit page = Some True \<or> sawExceededTransferLimit st)"
  "transferLimitWarning \<notin> set (page_warnings st) \<Longrightarrow>
   transferLimitWarning \<notin> set (page_warnings (acceptPage ps m c st page))"
  using transferLimitWarning_distinct(1)[of m]
  by (auto simp: acceptPage_def Let_def)

lemma transfer_inv_step:
  assumes "transfer_inv before n s"
    and "fetchArcGisPage n u q (offset s) ps = (Inr page, n1)"
  shows "transfer_inv before n1 (acceptPage ps m c s page)"
proof -
  from assms(1) obtain xs where xs: "traffic n = before @ xs"
    "sawExceededTransferLimit s \<longleftrightarrow> list_ex signalsTransferLimit xs"
    "transferLimitWarning \<notin> set (page_warnings s)"
    unfolding transfer_inv_def by blast
  from fetchArcGisPage_exchange[OF assms(2)] obtain x where
    x: "n1 = n\<lparr>traffic := traffic n @ [x]\<rparr>" "pageOutcome (snd x) = Inr page" by blast
  have sx: "signalsTransferLimit x \<longleftrightarrow> page_exceededTransferLimit page = Some True"
    using x(2) by (simp add: signalsTransferLimit_def)
  show ?thesis
    unfolding transfer_inv_def
  proof (intro exI[of _ "xs @ [x]"] conjI)
    show "traffic n1 = before @ xs @ [x]" using x(1) xs(1) by simp
    show "sawExceededTransferLimit (acceptPage ps m c s page)
            = list_ex signalsTransferLimit (xs @ [x])"
      using xs(2) sx by (auto simp: acceptPage_transfer(1) list_ex_iff)
    show "transferLimitWarning \<notin> set (page_warnings (acceptPage ps m c s page))"
      using xs(3) by (rule acceptPage_transfer(2))
  qed
qed

lemma acceptPage_fields:
  "allFeatures (acceptPage ps m c st page) = (allFeatures st @ slice0 (page_features page) (max 0 (m - enat (length (allFeatures st)))))"
  "hasMore (acceptPage ps m c st page) =
           (hasMore st \<and> \<not> m \<le> enat (length (allFeatures st @ slice0 (page_features page) (max 0 (m - enat (length (allFeatures st))))))
            \<and> \<not> (length (page_features page) < ps \<and> page_exceededTransferLimit page \<noteq> Some True)
            \<and> \<not> (case c of None \<Rightarrow> False | Some k \<Rightarrow> length_ge (length (allFeatures st @ slice0 (page_features page) (max 0 (m - enat (length (allFeatures st)))))) k))"
  "offset (acceptPage ps m c st page) =
           (if \<not> m \<le> enat (length (allFeatures st @ slice0 (page_features page) (max 0 (m - enat (length (allFeatures st))))))
               \<and> \<not> (length (page_features page) < ps \<and> page_exceededTransferLimit page \<noteq> Some True)
               \<and> \<not> (case c of None \<Rightarrow> False | Some k \<Rightarrow> length_ge (length (allFeatures st @ slice0 (page_features page) (max 0 (m - enat (length (allFeatures st)))))) k)
            then offset st + ps else offset st)"
  by (auto simp: acceptPage_def Let_def split: option.splits)

lemma continues_past_flagged_short_page:
  assumes "hasMore st" and "pageGuard st < maxPages"
    and "fetchArcGisPage net u q (offset st) ps = (Inr page, net1)"
    and "page_exceededTransferLimit page = Some True"
    and "st' = acceptPage ps m c st page"
    and "enat (length (allFeatures st')) < m"
    and "\<not> (case c of None \<Rightarrow> False | Some k \<Rightarrow> length_ge (length (allFeatures st')) k)"
  shows "hasMore st' \<and> offset st' = offset st + ps \<and> pageGuard st' = pageGuard st + 1
         \<and> fetchPages u q ps maxPages m c net st = fetchPages u q ps maxPages m c net1 st'"
proof -
  have eq: "fetchPages u q ps maxPages m c net st = fetchPages u q ps maxPages m c net1 st'"
    using assms(1,2,3,5) by (simp add: fetchPages.simps[of u q ps maxPages m c net st])
  let ?A = "allFeatures st
             @ slice0 (page_features page) (max 0 (m - enat (length (allFeatures st))))"
  have fA: "allFeatures st' = ?A"
    unfolding assms(5) by (rule acceptPage_fields(1))
  have nA: "\<not> m \<le> enat (length ?A)"
    using assms(6) unfolding fA by (simp only: not_le)
  have cA: "\<not> (case c of None \<Rightarrow> False | Some k \<Rightarrow> length_ge (length ?A) k)"
    using assms(7) unfolding fA .
  have cond: "\<not> m \<le> enat (length ?A)
      \<and> \<not> (length (page_features page) < ps \<and> page_exceededTransferLimit page \<noteq> Some True)
      \<and> \<not> (case c of None \<Rightarrow> False | Some k \<Rightarrow> length_ge (length ?A) k)"
    using assms(4) nA cA by blast
  have "hasMore st'"
    unfolding assms(5) acceptPage_fields(2) using assms(1) cond by blast
  moreover have "offset st' = offset st + ps"
    unfolding assms(5) by (simp only: acceptPage_fields(3) if_P[OF cond])
  moreover have "pageGuard st' = pageGuard st + 1"
    unfolding assms(5) by (rule pageGuard_acceptPage)
  ultimately show ?thesis using eq by simp
qed

section \<open>Evaluating the examples\<close>

lemma triple_collapse: "p = (fst p, fst (snd p), snd (snd p))"
  by simp

lemmas boston_run_simps =
  refreshBostonDataset_def DATASETS_def layer_query_def flagged_net_def unflagged_short_net_def
  failing_net_def setPersistentCache_def

lemmas refresh_run_simps =
  refreshBostonDataset_def DATASETS_def layer_query_def setPersistentCache_def
  refreshLocalTransit_def transit_net_def AMTRAK_FEED_CANDIDATES_def AMTRAK_DEFAULT_FEEDS_def
  proxied_def amtrakCandidates.simps isBostonRelated_def AMTRAK_KEYWORDS_def toLowerCase_def
  toLowerCaseChar_def startsWith_def example_alert_def alertTime_def buildSummary_def
  example_vehicle_def

section \<open>The record cap of the paginated fetcher\<close>

text \<open>
  Claim C1. Whenever \<open>fetchArcGisFeatureCollection\<close> returns with a finite configured
  \<open>maxRecords\<close>, the returned collection has at most that many features, and, the page
  limit not being 0, the "Record fetch bounded" warning is among the returned warnings
  if and only if the number of accumulated features reached the cap. No entry of
  \<open>DATASETS\<close>, from which the only caller takes the configuration, has a page limit of 0.
  The third statement also covers a page limit of 0, under which no page is requested and
  the cap is never tested.
\<close>

theorem fetch_bounded_by_cap:
  assumes "fetchArcGisFeatureCollection net config = (Inr r, net')"
    and "cfg_maxRecords config = Some cap"
  shows "length (features (fc_layer r)) \<le> cap \<and>
         (cfg_maxPages config \<noteq> Some 0 \<longrightarrow>
            (list_ex isBoundedWarning (fc_warnings r) \<longleftrightarrow>
               length (features (fc_layer r)) = cap)) \<and>
         (list_ex isBoundedWarning (fc_warnings r) \<longleftrightarrow>
            (cfg_maxPages config \<noteq> Some 0 \<and> length (features (fc_layer r)) = cap)) \<and>
         cfg_maxPages (DATASETS d) \<noteq> Some 0"
proof -
  define maxPages where "maxPages = (case cfg_maxPages config of Some n \<Rightarrow> n | None \<Rightarrow> 100)"
  from assms(1) obtain count net1 st u q ps st0 where
    p: "fetchPages u q ps maxPages (case cfg_maxRecords config of Some n \<Rightarrow> enat n | None \<Rightarrow> \<infinity>)
          count net1 st0 = (Inr st, net')"
    and st0: "st0 = \<lparr>offset = 0, allFeatures = [], hasMore = True, pageGuard = 0,
        sawExceededTransferLimit = False,
        page_warnings = (if count = None then [countWarning] else [])\<rparr>"
    and fs: "features (fc_layer r) = allFeatures st"
    and ws: "fc_warnings r = page_warnings st
       @ (if maxPages \<le> pageGuard st then [cappedWarning maxPages] else [])
       @ (if sawExceededTransferLimit st then [transferLimitWarning] else [])"
    unfolding maxPages_def by (rule fetchArcGisFeatureCollection_Inr) blast
  from p assms(2) have p': "fetchPages u q ps maxPages (enat cap) count net1 st0 = (Inr st, net')"
    by simp
  have inv0: "paging_inv (enat cap) st0"
    by (simp add: paging_inv_def st0 not_bounded_others)
  have inv: "paging_inv (enat cap) st"
    using fetchPages_paging_inv[OF p' inv0] .
  have guard: "0 < pageGuard st \<longleftrightarrow> 0 < maxPages"
  proof
    assume "0 < maxPages"
    then show "0 < pageGuard st"
      using fetchPages_enters[OF p'] by (simp add: st0)
  next
    assume g: "0 < pageGuard st"
    show "0 < maxPages"
    proof (rule ccontr)
      assume "\<not> 0 < maxPages"
      then have "st = st0" using p' by (simp add: fetchPages.simps)
      with g show False by (simp add: st0)
    qed
  qed
  have mp: "0 < maxPages \<longleftrightarrow> cfg_maxPages config \<noteq> Some 0"
    by (auto simp: maxPages_def split: option.splits)
  have w: "list_ex isBoundedWarning (fc_warnings r) \<longleftrightarrow>
           (\<exists>w \<in> set (page_warnings st). isBoundedWarning w)"
    by (auto simp: ws list_ex_iff not_bounded_others)
  have bound: "length (features (fc_layer r)) \<le> cap"
    using inv by (simp add: paging_inv_def fs)
  have iff: "list_ex isBoundedWarning (fc_warnings r) \<longleftrightarrow>
      (cfg_maxPages config \<noteq> Some 0 \<and> length (features (fc_layer r)) = cap)"
    using inv guard mp w by (auto simp: paging_inv_def fs)
  have real: "cfg_maxPages (DATASETS d) \<noteq> Some 0"
    by (cases d) (simp_all add: DATASETS_def)
  from bound iff real show ?thesis by blast
qed

text \<open>
  The scenario of the specification: page size 2, at most 3 records, an upstream serving
  pages of sizes 2, 2, 2. The fetch stops with exactly 3 records and the bounded warning.
\<close>

theorem fetch_bounded_by_cap_witness:
  "fst (fetchArcGisFeatureCollection scenario_net (example_config (Some 2) None (Some 3))) =
     Inr \<lparr>fc_layer = \<lparr>features = [blank_feature, blank_feature, blank_feature]\<rparr>,
          fc_warnings = [''Record fetch bounded at 3 records for responsive local usage.''],
          fc_queryParams =
            [(''where'', QString ''1=1''), (''outFields'', QString ''*''),
             (''returnGeometry'', QBoolean True), (''outSR'', QNumber 4326),
             (''pageSize'', QNumber 2)]\<rparr>
   \<and> cfg_maxRecords (example_config (Some 2) None (Some 3)) = Some 3
   \<and> cfg_maxPages (example_config (Some 2) None (Some 3)) \<noteq> Some 0
   \<and> length [blank_feature, blank_feature, blank_feature] \<le> 3
   \<and> length [blank_feature, blank_feature, blank_feature] = 3
   \<and> list_ex isBoundedWarning [''Record fetch bounded at 3 records for responsive local usage.'']
   \<and> cfg_maxPages (DATASETS crimeIncidents) = Some 8
   \<and> cfg_maxRecords (DATASETS crimeIncidents) = Some 4000"
proof -
  let ?cfg = "example_config (Some 2) None (Some 3)"
  let ?r = "\<lparr>fc_layer = \<lparr>features = [blank_feature, blank_feature, blank_feature]\<rparr>,
          fc_warnings = [''Record fetch bounded at 3 records for responsive local usage.''],
          fc_queryParams =
            [(''where'', QString ''1=1''), (''outFields'', QString ''*''),
             (''returnGeometry'', QBoolean True), (''outSR'', QNumber 4326),
             (''pageSize'', QNumber 2)]\<rparr>"
  have run: "fst (fetchArcGisFeatureCollection scenario_net ?cfg) = Inr ?r"
    by (simp add: run_simps)
  then obtain net' where eq: "fetchArcGisFeatureCollection scenario_net ?cfg = (Inr ?r, net')"
    by (cases "fetchArcGisFeatureCollection scenario_net ?cfg") simp
  have cap: "cfg_maxRecords ?cfg = Some 3" by (simp add: example_config_def)
  have pages: "cfg_maxPages ?cfg \<noteq> Some 0" by (simp add: example_config_def)
  have real: "cfg_maxPages (DATASETS crimeIncidents) = Some 8"
    "cfg_maxRecords (DATASETS crimeIncidents) = Some 4000"
    by (simp_all add: DATASETS_def)
  from fetch_bounded_by_cap[OF eq cap, of crimeIncidents] run cap pages real show ?thesis
    by (simp add: isBoundedWarning_def startsWith_def)
qed

section \<open>Coordinates of a feature without usable coordinates\<close>

text \<open>
  Claim C2 is not what the code does. A feature that has a geometry which is not a usable
  point, and no latitude or longitude property, gets the location (0, 0): \<open>pickString\<close>
  returns the empty string, \<open>Number('')\<close> is 0, and 0 is finite. The code returns
  \<open>null\<close> coordinates only when the feature has no geometry at all, or when a candidate
  property is present and does not parse to a finite number.
\<close>

theorem zero_location_default:
  "getFeatureCoordinates R \<lparr>geometry = Some OtherGeometry, properties = Some []\<rparr>
     = (Some (Finite 0), Some (Finite 0))
   \<and> getFeatureCoordinates R \<lparr>geometry = Some (Point []), properties = None\<rparr>
     = (Some (Finite 0), Some (Finite 0))
   \<and> lat (normalizeIncidentFeature R \<lparr>geometry = Some OtherGeometry, properties = Some []\<rparr> crime)
     = Some (Finite 0)
   \<and> lon (normalizeIncidentFeature R \<lparr>geometry = Some OtherGeometry, properties = Some []\<rparr> crime)
     = Some (Finite 0)"
  by (simp add: normalizeIncidentFeature_def getFeatureCoordinates_def pickStringAt_def
        findKeyIgnoreCase_def Number_of_string_def Number_isFinite_def trim_def Let_def)

section \<open>A fallback tier after an empty primary tier\<close>

text \<open>
  Claim C3, as the code has it, for \<open>fetchMbtaVehicles\<close> and \<open>fetchMbtaAlerts\<close>. When the
  primary query succeeds with no usable record and a later tier yields N > 0 records,
  be it the fallback query or, after a fallback query that failed or found nothing, the
  GTFS feed, the function returns the N records of that tier and leaves the warnings as
  they were: the note of the empty primary attempt stays in the local attempt notes.
  These are pushed to the warnings only at the end of the function, when all three tiers
  have failed or come back empty: then the function returns no record and appends one
  entry to the warnings, the three attempt notes in the order of the tiers, joined with
  \<open>' | '\<close>; the note of a primary query that succeeded with nothing is its zero-results
  note. Whenever records are returned, the warnings are unchanged.
\<close>

theorem fallback_records_without_note:
  "(fetchMbtaJson E net MBTA_VEHICLES_URL (vehiclePrimaryQuery E) = (Inr p1, net1) \<and>
    vehiclesFromMbtaV3 E p1 = [] \<and>
    fetchMbtaJson E net1 MBTA_VEHICLES_URL (vehicleFallbackQuery E) = (Inr p2, net2) \<and>
    vehiclesFromMbtaV3 E p2 \<noteq> []
    \<longrightarrow> fetchMbtaVehicles E net ws = (vehiclesFromMbtaV3 E p2, ws, net2))
   \<and>
   (fetchMbtaJson E net MBTA_VEHICLES_URL (vehiclePrimaryQuery E) = (Inr p1, net1) \<and>
    vehiclesFromMbtaV3 E p1 = [] \<and>
    fetchMbtaJson E net1 MBTA_VEHICLES_URL (vehicleFallbackQuery E) = (r2, net2) \<and>
    \<not> usableVehicles E r2 \<and>
    fetchJson E net2 MBTA_GTFS_VEHICLES_ENHANCED_URL = (Inr g, net3) \<and>
    vehiclesFromGtfsEnhanced E g \<noteq> []
    \<longrightarrow> fetchMbtaVehicles E net ws = (vehiclesFromGtfsEnhanced E g, ws, net3))
   \<and>
   (fetchMbtaJson E net MBTA_VEHICLES_URL (vehiclePrimaryQuery E) = (r1, net1) \<and>
    \<not> usableVehicles E r1 \<and>
    fetchMbtaJson E net1 MBTA_VEHICLES_URL (vehicleFallbackQuery E) = (r2, net2) \<and>
    \<not> usableVehicles E r2 \<and>
    fetchJson E net2 MBTA_GTFS_VEHICLES_ENHANCED_URL = (r3, net3) \<and>
    \<not> usableGtfsVehicles E r3
    \<longrightarrow> fetchMbtaVehicles E net ws =
          ([],
           ws @ [join [vehicleQueryNote ''filtered'' r1, vehicleQueryNote ''fallback'' r2,
                       vehicleGtfsNote r3] '' | ''],
           net3))
   \<and>
   (fst (fetchMbtaVehicles E net ws) \<noteq> [] \<longrightarrow> fst (snd (fetchMbtaVehicles E net ws)) = ws)
   \<and>
   vehicleQueryNote ''filtered'' (Inr p1)
     = ''MBTA filtered vehicle query returned zero Boston-area vehicles.''
   \<and>
   (fetchMbtaJson E neta MBTA_ALERTS_URL (alertPrimaryQuery E) = (Inr q1, neta1) \<and>
    normalizeAlertsFromMbtaV3 E q1 = [] \<and>
    fetchMbtaJson E neta1 MBTA_ALERTS_URL (alertFallbackQuery E) = (Inr q2, neta2) \<and>
    normalizeAlertsFromMbtaV3 E q2 \<noteq> []
    \<longrightarrow> fetchMbtaAlerts E neta ws = (normalizeAlertsFromMbtaV3 E q2, ws, neta2))
   \<and>
   (fetchMbtaJson E neta MBTA_ALERTS_URL (alertPrimaryQuery E) = (Inr q1, neta1) \<and>
    normalizeAlertsFromMbtaV3 E q1 = [] \<and>
    fetchMbtaJson E neta1 MBTA_ALERTS_URL (alertFallbackQuery E) = (s2, neta2) \<and>
    \<not> usableAlerts E s2 \<and>
    fetchJson E neta2 MBTA_GTFS_ALERTS_ENHANCED_URL = (Inr h, neta3) \<and>
    normalizeAlertsFromGtfsEnhanced E h \<noteq> []
    \<longrightarrow> fetchMbtaAlerts E neta ws = (normalizeAlertsFromGtfsEnhanced E h, ws, neta3))
   \<and>
   (fetchMbtaJson E neta MBTA_ALERTS_URL (alertPrimaryQuery E) = (s1, neta1) \<and>
    \<not> usableAlerts E s1 \<and>
    fetchMbtaJson E neta1 MBTA_ALERTS_URL (alertFallbackQuery E) = (s2, neta2) \<and>
    \<not> usableAlerts E s2 \<and>
    fetchJson E neta2 MBTA_GTFS_ALERTS_ENHANCED_URL = (s3, neta3) \<and>
    \<not> usableGtfsAlerts E s3
    \<longrightarrow> fetchMbtaAlerts E neta ws =
          ([],
           ws @ [join [alertQueryNote ''filtered'' s1, alertQueryNote ''fallback'' s2,
                       alertGtfsNote s3] '' | ''],
           neta3))
   \<and>
   (fst (fetchMbtaAlerts E neta ws) \<noteq> [] \<longrightarrow> fst (snd (fetchMbtaAlerts E neta ws)) = ws)
   \<and>
   alertQueryNote ''filtered'' (Inr q1) = ''MBTA filtered alert query returned zero alerts.''"
proof -
  have v2: "fetchMbtaJson E net MBTA_VEHICLES_URL (vehiclePrimaryQuery E) = (Inr p1, net1) \<and>
    vehiclesFromMbtaV3 E p1 = [] \<and>
    fetchMbtaJson E net1 MBTA_VEHICLES_URL (vehicleFallbackQuery E) = (Inr p2, net2) \<and>
    vehiclesFromMbtaV3 E p2 \<noteq> []
    \<longrightarrow> fetchMbtaVehicles E net ws = (vehiclesFromMbtaV3 E p2, ws, net2)"
    using vehicles_tier2[of E net "Inr p1" net1 "Inr p2" net2 ws]
    by (simp add: usableVehicles_def)
  have v3: "fetchMbtaJson E net MBTA_VEHICLES_URL (vehiclePrimaryQuery E) = (Inr p1, net1) \<and>
    vehiclesFromMbtaV3 E p1 = [] \<and>
    fetchMbtaJson E net1 MBTA_VEHICLES_URL (vehicleFallbackQuery E) = (r2, net2) \<and>
    \<not> usableVehicles E r2 \<and>
    fetchJson E net2 MBTA_GTFS_VEHICLES_ENHANCED_URL = (Inr g, net3) \<and>
    vehiclesFromGtfsEnhanced E g \<noteq> []
    \<longrightarrow> fetchMbtaVehicles E net ws = (vehiclesFromGtfsEnhanced E g, ws, net3)"
    using vehicles_gtfs[of E net "Inr p1" net1 r2 net2 "Inr g" net3 ws]
    by (simp add: usableVehicles_def usableGtfsVehicles_def)
  have v0: "fetchMbtaJson E net MBTA_VEHICLES_URL (vehiclePrimaryQuery E) = (r1, net1) \<and>
    \<not> usableVehicles E r1 \<and>
    fetchMbtaJson E net1 MBTA_VEHICLES_URL (vehicleFallbackQuery E) = (r2, net2) \<and>
    \<not> usableVehicles E r2 \<and>
    fetchJson E net2 MBTA_GTFS_VEHICLES_ENHANCED_URL = (r3, net3) \<and>
    \<not> usableGtfsVehicles E r3
    \<longrightarrow> fetchMbtaVehicles E net ws =
          ([],
           ws @ [join [vehicleQueryNote ''filtered'' r1, vehicleQueryNote ''fallback'' r2,
                       vehicleGtfsNote r3] '' | ''],
           net3)"
    using vehicles_none[of E net r1 net1 r2 net2 r3 net3 ws] by blast
  have vw: "fst (fetchMbtaVehicles E net ws) \<noteq> [] \<longrightarrow> fst (snd (fetchMbtaVehicles E net ws)) = ws"
    using vehicles_warnings[of E net ws] by blast
  have vn: "vehicleQueryNote ''filtered'' (Inr p1)
     = ''MBTA filtered vehicle query returned zero Boston-area vehicles.''"
    by (simp add: vehicleQueryNote_def)
  have a2: "fetchMbtaJson E neta MBTA_ALERTS_URL (alertPrimaryQuery E) = (Inr q1, neta1) \<and>
    normalizeAlertsFromMbtaV3 E q1 = [] \<and>
    fetchMbtaJson E neta1 MBTA_ALERTS_URL (alertFallbackQuery E) = (Inr q2, neta2) \<and>
    normalizeAlertsFromMbtaV3 E q2 \<noteq> []
    \<longrightarrow> fetchMbtaAlerts E neta ws = (normalizeAlertsFromMbtaV3 E q2, ws, neta2)"
    using alerts_tier2[of E neta "Inr q1" neta1 "Inr q2" neta2 ws]
    by (simp add: usableAlerts_def)
  have a3: "fetchMbtaJson E neta MBTA_ALERTS_URL (alertPrimaryQuery E) = (Inr q1, neta1) \<and>
    normalizeAlertsFromMbtaV3 E q1 = [] \<and>
    fetchMbtaJson E neta1 MBTA_ALERTS_URL (alertFallbackQuery E) = (s2, neta2) \<and>
    \<not> usableAlerts E s2 \<and>
    fetchJson E neta2 MBTA_GTFS_ALERTS_ENHANCED_URL = (Inr h, neta3) \<and>
    normalizeAlertsFromGtfsEnhanced E h \<noteq> []
    \<longrightarrow> fetchMbtaAlerts E neta ws = (normalizeAlertsFromGtfsEnhanced E h, ws, neta3)"
    using alerts_gtfs[of E neta "Inr q1" neta1 s2 neta2 "Inr h" neta3 ws]
    by (simp add: usableAlerts_def usableGtfsAlerts_def)
  have a0: "fetchMbtaJson E neta MBTA_ALERTS_URL (alertPrimaryQuery E) = (s1, neta1) \<and>
    \<not> usableAlerts E s1 \<and>
    fetchMbtaJson E neta1 MBTA_ALERTS_URL (alertFallbackQuery E) = (s2, neta2) \<and>
    \<not> usableAlerts E s2 \<and>
    fetchJson E neta2 MBTA_GTFS_ALERTS_ENHANCED_URL = (s3, neta3) \<and>
    \<not> usableGtfsAlerts E s3
    \<longrightarrow> fetchMbtaAlerts E neta ws =
          ([],
           ws @ [join [alertQueryNote ''filtered'' s1, alertQueryNote ''fallback'' s2,
                       alertGtfsNote s3] '' | ''],
           neta3)"
    using alerts_none[of E neta s1 neta1 s2 neta2 s3 neta3 ws] by blast
  have aw: "fst (fetchMbtaAlerts E neta ws) \<noteq> [] \<longrightarrow> fst (snd (fetchMbtaAlerts E neta ws)) = ws"
    using alerts_warnings[of E neta ws] by blast
  have an: "alertQueryNote ''filtered'' (Inr q1) = ''MBTA filtered alert query returned zero alerts.''"
    by (simp add: alertQueryNote_def)
  show ?thesis
    by (intro conjI) (fact v2 v3 v0 vw vn a2 a3 a0 aw an)+
qed

text \<open>
  The scenario of the specification: the primary query returns no vehicle, the fallback
  query four. The result has the four vehicles and the warnings hold no note at all, so the
  zero-results note of the primary tier occurs zero times, not once.
\<close>

theorem zero_results_note_counterexample:
  "fst (fetchMbtaVehicles example_env fallback_net []) = four_vehicles
   \<and> length four_vehicles = 4
   \<and> fst (snd (fetchMbtaVehicles example_env fallback_net [])) = []
   \<and> count_list (fst (snd (fetchMbtaVehicles example_env fallback_net [])))
         ''MBTA filtered vehicle query returned zero Boston-area vehicles.'' = 0"
  by (simp add: transit_run_simps four_vehicles_def)

text \<open>
  The fallback query as the tier with records, for the vehicles and for the alerts; the
  GTFS feed as the tier with records, after two queries that found nothing; three tiers
  that are answered and find nothing; and an upstream that answers no request.
\<close>

theorem fallback_records_without_note_witness:
  "fetchMbtaVehicles example_env fallback_net [''earlier warning'']
     = (four_vehicles, [''earlier warning''],
        snd (snd (fetchMbtaVehicles example_env fallback_net [''earlier warning''])))
   \<and> fetchMbtaAlerts example_env alert_fallback_net [''earlier warning'']
     = ([example_alert ''Delay''], [''earlier warning''],
        snd (snd (fetchMbtaAlerts example_env alert_fallback_net [''earlier warning''])))
   \<and> fetchMbtaVehicles example_env gtfs_net [''earlier warning'']
     = (four_vehicles, [''earlier warning''],
        snd (snd (fetchMbtaVehicles example_env gtfs_net [''earlier warning''])))
   \<and> fetchMbtaAlerts example_env gtfs_net [''earlier warning'']
     = ([example_alert ''Delay''], [''earlier warning''],
        snd (snd (fetchMbtaAlerts example_env gtfs_net [''earlier warning''])))
   \<and> fst (fetchMbtaVehicles example_env empty_net [''earlier warning'']) = []
   \<and> fst (snd (fetchMbtaVehicles example_env empty_net [''earlier warning'']))
     = [''earlier warning'',
        ''MBTA filtered vehicle query returned zero Boston-area vehicles. | MBTA fallback vehicle query returned zero Boston-area vehicles. | MBTA GTFS vehicle fallback returned zero Boston-area vehicles.'']
   \<and> fst (fetchMbtaAlerts example_env empty_net [''earlier warning'']) = []
   \<and> fst (snd (fetchMbtaAlerts example_env empty_net [''earlier warning'']))
     = [''earlier warning'',
        ''MBTA filtered alert query returned zero alerts. | MBTA fallback alert query returned zero alerts. | MBTA GTFS alert fallback returned zero alerts.'']
   \<and> fetchMbtaVehicles example_env offline_net [''earlier warning''] =
       ([],
        [''earlier warning'',
         ''MBTA filtered vehicle query failed (Failed to fetch). | MBTA fallback vehicle query failed (Failed to fetch). | MBTA GTFS vehicle fallback failed (Failed to fetch).''],
        offline_net\<lparr>traffic :=
          [(Request MBTA_VEHICLES_URL (vehiclePrimaryQuery example_env), Rejected ''Failed to fetch''),
           (Request MBTA_VEHICLES_URL (vehicleFallbackQuery example_env), Rejected ''Failed to fetch''),
           (Request MBTA_GTFS_VEHICLES_ENHANCED_URL [], Rejected ''Failed to fetch'')]\<rparr>)"
proof -
  let ?E = example_env
  let ?ws = "[''earlier warning'']"
  let ?none = "([], []) :: example_doc"
  let ?gtfs = "(four_vehicles, [example_alert ''Delay'']) :: example_doc"
  have e: "vehiclesFromMbtaV3 ?E d = fst d" "vehiclesFromGtfsEnhanced ?E d = fst d"
    "normalizeAlertsFromMbtaV3 ?E d = snd d" "normalizeAlertsFromGtfsEnhanced ?E d = snd d" for d
    by (simp_all add: example_env_def)
  have four: "four_vehicles \<noteq> []" by (simp add: four_vehicles_def)

  let ?v1 = "fetchMbtaJson ?E fallback_net MBTA_VEHICLES_URL (vehiclePrimaryQuery ?E)"
  let ?v2 = "fetchMbtaJson ?E (snd ?v1) MBTA_VEHICLES_URL (vehicleFallbackQuery ?E)"
  have v1: "?v1 = (Inr ?none, snd ?v1)" by (simp add: transit_run_simps)
  have v2: "?v2 = (Inr (four_vehicles, []), snd ?v2)" by (simp add: transit_run_simps)
  have c1: "fetchMbtaVehicles ?E fallback_net ?ws = (four_vehicles, ?ws, snd ?v2)"
    using fallback_records_without_note[where E = ?E and net = fallback_net and ?p1.0 = ?none
        and ?net1.0 = "snd ?v1" and ?p2.0 = "(four_vehicles, [])" and ?net2.0 = "snd ?v2"
        and ws = ?ws, THEN conjunct1] v1 v2 four
    by (simp add: e)

  let ?a1 = "fetchMbtaJson ?E alert_fallback_net MBTA_ALERTS_URL (alertPrimaryQuery ?E)"
  let ?a2 = "fetchMbtaJson ?E (snd ?a1) MBTA_ALERTS_URL (alertFallbackQuery ?E)"
  have a1: "?a1 = (Inr ?none, snd ?a1)" by (simp add: transit_run_simps)
  have a2: "?a2 = (Inr ([], [example_alert ''Delay'']), snd ?a2)" by (simp add: transit_run_simps)
  have c2: "fetchMbtaAlerts ?E alert_fallback_net ?ws = ([example_alert ''Delay''], ?ws, snd ?a2)"
    using fallback_records_without_note[where E = ?E and neta = alert_fallback_net
        and ?q1.0 = ?none and ?neta1.0 = "snd ?a1" and ?q2.0 = "([], [example_alert ''Delay''])"
        and ?neta2.0 = "snd ?a2" and ws = ?ws,
        THEN conjunct2, THEN conjunct2, THEN conjunct2, THEN conjunct2, THEN conjunct2,
        THEN conjunct1] a1 a2
    by (simp add: e)

  let ?g1 = "fetchMbtaJson ?E gtfs_net MBTA_VEHICLES_URL (vehiclePrimaryQuery ?E)"
  let ?g2 = "fetchMbtaJson ?E (snd ?g1) MBTA_VEHICLES_URL (vehicleFallbackQuery ?E)"
  let ?g3 = "fetchJson ?E (snd ?g2) MBTA_GTFS_VEHICLES_ENHANCED_URL"
  have g1: "?g1 = (Inr ?none, snd ?g1)" by (simp add: transit_run_simps)
  have g2: "?g2 = (Inr ?none, snd ?g2)" by (simp add: transit_run_simps)
  have g3: "?g3 = (Inr ?gtfs, snd ?g3)" by (simp add: transit_run_simps)
  have c3: "fetchMbtaVehicles ?E gtfs_net ?ws = (four_vehicles, ?ws, snd ?g3)"
    using fallback_records_without_note[where E = ?E and net = gtfs_net and ?p1.0 = ?none
        and ?net1.0 = "snd ?g1" and ?r2.0 = "Inr ?none" and ?net2.0 = "snd ?g2"
        and g = ?gtfs and ?net3.0 = "snd ?g3" and ws = ?ws,
        THEN conjunct2, THEN conjunct1] g1 g2 g3 four
    by (simp add: e usableVehicles_def)

  let ?h1 = "fetchMbtaJson ?E gtfs_net MBTA_ALERTS_URL (alertPrimaryQuery ?E)"
  let ?h2 = "fetchMbtaJson ?E (snd ?h1) MBTA_ALERTS_URL (alertFallbackQuery ?E)"
  let ?h3 = "fetchJson ?E (snd ?h2) MBTA_GTFS_ALERTS_ENHANCED_URL"
  have h1: "?h1 = (Inr ?none, snd ?h1)" by (simp add: transit_run_simps)
  have h2: "?h2 = (Inr ?none, snd ?h2)" by (simp add: transit_run_simps)
  have h3: "?h3 = (Inr ?gtfs, snd ?h3)" by (simp add: transit_run_simps)
  have c4: "fetchMbtaAlerts ?E gtfs_net ?ws = ([example_alert ''Delay''], ?ws, snd ?h3)"
    using fallback_records_without_note[where E = ?E and neta = gtfs_net and ?q1.0 = ?none
        and ?neta1.0 = "snd ?h1" and ?s2.0 = "Inr ?none" and ?neta2.0 = "snd ?h2"
        and h = ?gtfs and ?neta3.0 = "snd ?h3" and ws = ?ws,
        THEN conjunct2, THEN conjunct2, THEN conjunct2, THEN conjunct2, THEN conjunct2,
        THEN conjunct2, THEN conjunct1] h1 h2 h3
    by (simp add: e usableAlerts_def)

  let ?n1 = "fetchMbtaJson ?E empty_net MBTA_VEHICLES_URL (vehiclePrimaryQuery ?E)"
  let ?n2 = "fetchMbtaJson ?E (snd ?n1) MBTA_VEHICLES_URL (vehicleFallbackQuery ?E)"
  let ?n3 = "fetchJson ?E (snd ?n2) MBTA_GTFS_VEHICLES_ENHANCED_URL"
  have n1: "?n1 = (Inr ?none, snd ?n1)" by (simp add: transit_run_simps)
  have n2: "?n2 = (Inr ?none, snd ?n2)" by (simp add: transit_run_simps)
  have n3: "?n3 = (Inr ?none, snd ?n3)" by (simp add: transit_run_simps)
  have c5: "fetchMbtaVehicles ?E empty_net ?ws =
      ([],
       [''earlier warning'',
        ''MBTA filtered vehicle query returned zero Boston-area vehicles. | MBTA fallback vehicle query returned zero Boston-area vehicles. | MBTA GTFS vehicle fallback returned zero Boston-area vehicles.''],
       snd ?n3)"
    using fallback_records_without_note[where E = ?E and net = empty_net and ?r1.0 = "Inr ?none"
        and ?net1.0 = "snd ?n1" and ?r2.0 = "Inr ?none" and ?net2.0 = "snd ?n2"
        and ?r3.0 = "Inr ?none" and ?net3.0 = "snd ?n3" and ws = ?ws,
        THEN conjunct2, THEN conjunct2, THEN conjunct1] n1 n2 n3
    by (simp add: e usableVehicles_def usableGtfsVehicles_def vehicleQueryNote_def
          vehicleGtfsNote_def)

  let ?m1 = "fetchMbtaJson ?E empty_net MBTA_ALERTS_URL (alertPrimaryQuery ?E)"
  let ?m2 = "fetchMbtaJson ?E (snd ?m1) MBTA_ALERTS_URL (alertFallbackQuery ?E)"
  let ?m3 = "fetchJson ?E (snd ?m2) MBTA_GTFS_ALERTS_ENHANCED_URL"
  have m1: "?m1 = (Inr ?none, snd ?m1)" by (simp add: transit_run_simps)
  have m2: "?m2 = (Inr ?none, snd ?m2)" by (simp add: transit_run_simps)
  have m3: "?m3 = (Inr ?none, snd ?m3)" by (simp add: transit_run_simps)
  have c6: "fetchMbtaAlerts ?E empty_net ?ws =
      ([],
       [''earlier warning'',
        ''MBTA filtered alert query returned zero alerts. | MBTA fallback alert query returned zero alerts. | MBTA GTFS alert fallback returned zero alerts.''],
       snd ?m3)"
    using fallback_records_without_note[where E = ?E and neta = empty_net and ?s1.0 = "Inr ?none"
        and ?neta1.0 = "snd ?m1" and ?s2.0 = "Inr ?none" and ?neta2.0 = "snd ?m2"
        and ?s3.0 = "Inr ?none" and ?neta3.0 = "snd ?m3" and ws = ?ws,
        THEN conjunct2, THEN conjunct2, THEN conjunct2, THEN conjunct2, THEN conjunct2,
        THEN conjunct2, THEN conjunct2, THEN conjunct1] m1 m2 m3
    by (simp add: e usableAlerts_def usableGtfsAlerts_def alertQueryNote_def alertGtfsNote_def)

  have off: "fetchMbtaVehicles ?E offline_net [''earlier warning''] =
       ([],
        [''earlier warning'',
         ''MBTA filtered vehicle query failed (Failed to fetch). | MBTA fallback vehicle query failed (Failed to fetch). | MBTA GTFS vehicle fallback failed (Failed to fetch).''],
        offline_net\<lparr>traffic :=
          [(Request MBTA_VEHICLES_URL (vehiclePrimaryQuery ?E), Rejected ''Failed to fetch''),
           (Request MBTA_VEHICLES_URL (vehicleFallbackQuery ?E), Rejected ''Failed to fetch''),
           (Request MBTA_GTFS_VEHICLES_ENHANCED_URL [], Rejected ''Failed to fetch'')]\<rparr>)"
    by (simp add: transit_run_simps)
  from c1 c2 c3 c4 c5 c6 off show ?thesis by simp
qed
section \<open>The derived incident id\<close>

lemma or_else_nonempty: "b \<noteq> [] \<Longrightarrow> or_else a b \<noteq> []"
  by (simp add: or_else_def)

text \<open>
  Claim C4. The id that \<open>normalizeIncidentFeature\<close> derives is never the empty string,
  and it is determined by the property mapping, the dataset tag and the runtime alone: the
  function reads no clock and no random source, and replacing the geometry of the feature,
  the only other input, leaves the id as it is. So normalizing the same property mapping
  with the same dataset tag again yields the same id.
\<close>

theorem incident_id_nonempty_and_stable:
  "incident_id (normalizeIncidentFeature R f datasetTag) \<noteq> []
   \<and> incident_id (normalizeIncidentFeature R (f\<lparr>geometry := g\<rparr>) datasetTag)
       = incident_id (normalizeIncidentFeature R f datasetTag)"
proof
  show "incident_id (normalizeIncidentFeature R f datasetTag) \<noteq> []"
    by (simp add: normalizeIncidentFeature_def Let_def or_else_nonempty tag_name_def
          split: prod.splits dataset_tag.splits)
  show "incident_id (normalizeIncidentFeature R (f\<lparr>geometry := g\<rparr>) datasetTag)
       = incident_id (normalizeIncidentFeature R f datasetTag)"
    by (simp add: normalizeIncidentFeature_def Let_def split: prod.splits)
qed

section \<open>A failed page request and the cache\<close>

text \<open>
  Claim C5. Let a refresh of a Boston dataset end with the result \<open>res\<close>. If one of the
  page requests it made was answered outside 2xx, then \<open>res\<close> is the error
  "ArcGIS request failed (status)" thrown to the caller, and the cache is the cache from
  before the refresh, so the payload cached for the dataset is unchanged. Whenever the
  refresh ends with an error the cache is unchanged, and it is written, with the returned
  payload under the key of the dataset, exactly when the refresh returns a payload.
\<close>

theorem failed_page_aborts_refresh:
  assumes "refreshBostonDataset R now net cache d = (res, net', cache')"
  shows "(list_ex (\<lambda>x. non2xx (snd x)) (pageExchanges net net') \<longrightarrow>
            (\<exists>st. res = Inl (Error (''ArcGIS request failed ('' @ String_nat st @ '')'')))
            \<and> cache' = cache
            \<and> getCachedBostonDataset cache' d = getCachedBostonDataset cache d)
         \<and> ((\<exists>e. res = Inl e) \<longrightarrow> cache' = cache)
         \<and> (\<forall>p. res = Inr p \<longrightarrow> cache' = cache(cacheKey d \<mapsto> p))"
proof (cases "cfg_mode (DATASETS d) = ModeStub")
  case True
  with assms have "net' = net" "\<exists>p. res = Inr p \<and> cache' = cache(cacheKey d \<mapsto> p)"
    by (auto simp: refreshBostonDataset_def Let_def setPersistentCache_def)
  then show ?thesis by (auto simp: pageExchanges_def)
next
  case False
  obtain fr net1 where f: "fetchArcGisFeatureCollection net (DATASETS d) = (fr, net1)" by force
  from assms False f have n: "net' = net1"
    by (auto simp: refreshBostonDataset_def Let_def split: sum.splits)
  from assms False f have inl: "\<And>e. fr = Inl e \<Longrightarrow> res = Inl e \<and> cache' = cache"
    by (auto simp: refreshBostonDataset_def Let_def)
  from assms False f have inr:
    "\<And>r. fr = Inr r \<Longrightarrow> \<exists>p. res = Inr p \<and> cache' = cache(cacheKey d \<mapsto> p)"
    by (auto simp: refreshBostonDataset_def Let_def setPersistentCache_def)
  note t = fetchArcGisFeatureCollection_traffic[OF f, folded n]
  have first: "list_ex (\<lambda>x. non2xx (snd x)) (pageExchanges net net') \<longrightarrow>
            (\<exists>st. res = Inl (Error (''ArcGIS request failed ('' @ String_nat st @ '')'')))
            \<and> cache' = cache
            \<and> getCachedBostonDataset cache' d = getCachedBostonDataset cache d"
  proof
    assume "list_ex (\<lambda>x. non2xx (snd x)) (pageExchanges net net')"
    then obtain x where x: "x \<in> set (pageExchanges net net')" "non2xx (snd x)"
      by (auto simp: list_ex_iff)
    from non2xx_outcome[OF x(2)] obtain st where
      st: "pageOutcome (snd x) = Inl (Error (''ArcGIS request failed ('' @ String_nat st @ '')''))"
      by blast
    then have bad: "\<not> pageAccepted x" by (simp add: pageAccepted_def)
    show "(\<exists>st. res = Inl (Error (''ArcGIS request failed ('' @ String_nat st @ '')'')))
            \<and> cache' = cache
            \<and> getCachedBostonDataset cache' d = getCachedBostonDataset cache d"
    proof (cases fr)
      case (Inr r)
      with t x(1) bad show ?thesis by (auto simp: list_all_iff)
    next
      case (Inl e)
      with t have b: "list_all pageAccepted (butlast (pageExchanges net net'))"
        and l: "pageExchanges net net' \<noteq> [] \<longrightarrow>
                  pageOutcome (snd (last (pageExchanges net net'))) = Inl e" by simp_all
      from failed_page_is_last[OF b x(1) bad] l st have "e = Error (''ArcGIS request failed ('' @ String_nat st @ '')'')"
        by simp
      with inl[OF Inl] show ?thesis by auto
    qed
  qed
  from first inl inr show ?thesis by (cases fr) auto
qed

text \<open>
  The first page request of a refresh of the crime incidents is answered with status 500:
  the refresh fails with that error and the payload cached before is still the cached one.
\<close>

theorem failed_page_aborts_refresh_witness:
  "fst (refreshBostonDataset example_runtime ''2024-06-01T00:00:00.000Z'' failing_net old_cache
          crimeIncidents) = Inl (Error ''ArcGIS request failed (500)'')
   \<and> snd (snd (refreshBostonDataset example_runtime ''2024-06-01T00:00:00.000Z'' failing_net
                  old_cache crimeIncidents)) = old_cache
   \<and> getCachedBostonDataset
        (snd (snd (refreshBostonDataset example_runtime ''2024-06-01T00:00:00.000Z'' failing_net
                     old_cache crimeIncidents))) crimeIncidents = Some stub_payload"
proof -
  let ?X = "refreshBostonDataset example_runtime ''2024-06-01T00:00:00.000Z'' failing_net
              old_cache crimeIncidents"
  have run: "fst ?X = Inl (Error ''ArcGIS request failed (500)'')"
    by (simp add: run_simps boston_run_simps)
  have bad: "list_ex (\<lambda>x. non2xx (snd x)) (pageExchanges failing_net (fst (snd ?X)))"
    by (simp add: run_simps boston_run_simps pageExchanges_def non2xx_def)
  have old: "getCachedBostonDataset old_cache crimeIncidents = Some stub_payload"
    by (simp add: getCachedBostonDataset_def getPersistentCache_def old_cache_def)
  from failed_page_aborts_refresh[OF triple_collapse[of ?X]] bad
  have "snd (snd ?X) = old_cache" by blast
  with run old show ?thesis by simp
qed

section \<open>Tiers are tried one after the other\<close>

text \<open>
  Claim C6. Every tiered fetch issues its requests one at a time, in the order of the
  tiers, and issues the next one only when the answer before it failed or had no usable
  record. For \<open>fetchMbtaVehicles\<close> and \<open>fetchMbtaAlerts\<close>, with \<open>net1\<close>, \<open>net2\<close> and
  \<open>net3\<close> the network after one, two and three requests, the network after the call is
  \<open>net1\<close> when the first tier is usable (and the result is then the first tier's records),
  \<open>net2\<close> when the first is not and the second is, and \<open>net3\<close> otherwise. For
  \<open>fetchAmtrakAlerts\<close>, a usable first feed ends the call after that single request;
  a feed that is not usable adds a failure note and the loop goes on with the remaining
  candidates.
\<close>

theorem later_tier_only_after_earlier:
  assumes "fetchMbtaJson E net MBTA_VEHICLES_URL (vehiclePrimaryQuery E) = (r1, net1)"
    and "fetchMbtaJson E net1 MBTA_VEHICLES_URL (vehicleFallbackQuery E) = (r2, net2)"
    and "fetchJson E net2 MBTA_GTFS_VEHICLES_ENHANCED_URL = (r3, net3)"
    and "fetchMbtaJson E neta MBTA_ALERTS_URL (alertPrimaryQuery E) = (s1, neta1)"
    and "fetchMbtaJson E neta1 MBTA_ALERTS_URL (alertFallbackQuery E) = (s2, neta2)"
    and "fetchJson E neta2 MBTA_GTFS_ALERTS_ENHANCED_URL = (s3, neta3)"
    and "AMTRAK_FEED_CANDIDATES E = candidate # rest"
    and "fetch netr (proxied E candidate) = (out, netr1)"
  shows
    "traffic net1 = traffic net @ [exchange net (Request MBTA_VEHICLES_URL (vehiclePrimaryQuery E))]
     \<and> traffic net2 = traffic net1 @ [exchange net1 (Request MBTA_VEHICLES_URL (vehicleFallbackQuery E))]
     \<and> traffic net3 = traffic net2 @ [exchange net2 (Request MBTA_GTFS_VEHICLES_ENHANCED_URL [])]
     \<and> snd (snd (fetchMbtaVehicles E net ws)) =
         (if usableVehicles E r1 then net1 else if usableVehicles E r2 then net2 else net3)
     \<and> (usableVehicles E r1 \<longrightarrow>
           fst (fetchMbtaVehicles E net ws) = vehiclesFromMbtaV3 E (projr r1))
     \<and> traffic neta1 = traffic neta @ [exchange neta (Request MBTA_ALERTS_URL (alertPrimaryQuery E))]
     \<and> traffic neta2 = traffic neta1 @ [exchange neta1 (Request MBTA_ALERTS_URL (alertFallbackQuery E))]
     \<and> traffic neta3 = traffic neta2 @ [exchange neta2 (Request MBTA_GTFS_ALERTS_ENHANCED_URL [])]
     \<and> snd (snd (fetchMbtaAlerts E neta ws)) =
         (if usableAlerts E s1 then neta1 else if usableAlerts E s2 then neta2 else neta3)
     \<and> (usableAlerts E s1 \<longrightarrow>
           fst (fetchMbtaAlerts E neta ws) = normalizeAlertsFromMbtaV3 E (projr s1))
     \<and> traffic netr1 = traffic netr @ [exchange netr (proxied E candidate)]
     \<and> (usableFeed E out \<longrightarrow>
           snd (snd (fetchAmtrakAlerts E netr ws)) = netr1
           \<and> amtrak_sourceUrl (fst (fetchAmtrakAlerts E netr ws)) = candidate)
     \<and> (\<not> usableFeed E out \<longrightarrow>
           (\<exists>note. amtrakCandidates E (candidate # rest) [] ws netr
                     = amtrakCandidates E rest [note] ws netr1))"
proof -
  note t = fetchMbtaJson_traffic[OF assms(1)] fetchMbtaJson_traffic[OF assms(2)]
    fetchJson_traffic[OF assms(3)] fetchMbtaJson_traffic[OF assms(4)]
    fetchMbtaJson_traffic[OF assms(5)] fetchJson_traffic[OF assms(6)]
  have v: "snd (snd (fetchMbtaVehicles E net ws)) =
         (if usableVehicles E r1 then net1 else if usableVehicles E r2 then net2 else net3)"
    using vehicles_tier1[OF assms(1), of ws] vehicles_tier2[OF assms(1) _ assms(2), of ws]
      vehicles_tier3[OF assms(1) _ assms(2) _ assms(3), of ws]
    by (cases "usableVehicles E r1"; cases "usableVehicles E r2") simp_all
  have v1: "usableVehicles E r1 \<longrightarrow>
           fst (fetchMbtaVehicles E net ws) = vehiclesFromMbtaV3 E (projr r1)"
    using vehicles_tier1[OF assms(1), of ws] by simp
  have a: "snd (snd (fetchMbtaAlerts E neta ws)) =
         (if usableAlerts E s1 then neta1 else if usableAlerts E s2 then neta2 else neta3)"
    using alerts_tier1[OF assms(4), of ws] alerts_tier2[OF assms(4) _ assms(5), of ws]
      alerts_tier3[OF assms(4) _ assms(5) _ assms(6), of ws]
    by (cases "usableAlerts E s1"; cases "usableAlerts E s2") simp_all
  have a1: "usableAlerts E s1 \<longrightarrow>
           fst (fetchMbtaAlerts E neta ws) = normalizeAlertsFromMbtaV3 E (projr s1)"
    using alerts_tier1[OF assms(4), of ws] by simp
  have r0: "traffic netr1 = traffic netr @ [exchange netr (proxied E candidate)]"
    using assms(8) by (auto simp: fetch_def exchange_def Let_def)
  have r1: "usableFeed E out \<longrightarrow>
           snd (snd (fetchAmtrakAlerts E netr ws)) = netr1
           \<and> amtrak_sourceUrl (fst (fetchAmtrakAlerts E netr ws)) = candidate"
  proof
    assume "usableFeed E out"
    from amtrak_usable[OF assms(8) this, of rest "[]" ws] obtain result ws1 where
      "amtrakCandidates E (candidate # rest) [] ws netr = (Some result, [], ws1, netr1)"
      "amtrak_sourceUrl result = candidate" by blast
    then show "snd (snd (fetchAmtrakAlerts E netr ws)) = netr1
           \<and> amtrak_sourceUrl (fst (fetchAmtrakAlerts E netr ws)) = candidate"
      by (simp add: fetchAmtrakAlerts_def assms(7))
  qed
  have r2: "\<not> usableFeed E out \<longrightarrow>
           (\<exists>note. amtrakCandidates E (candidate # rest) [] ws netr
                     = amtrakCandidates E rest [note] ws netr1)"
    using amtrak_unusable[OF assms(8), of rest "[]" ws] by simp
  from t v v1 a a1 r0 r1 r2 show ?thesis by simp
qed


text \<open>
  An upstream whose first answer is usable: each of the three fetches sends exactly one
  request.
\<close>

theorem later_tier_only_after_earlier_witness:
  "length (traffic (snd (snd (fetchMbtaVehicles example_env primary_net [])))) = 1
   \<and> fst (fetchMbtaVehicles example_env primary_net []) = four_vehicles
   \<and> length (traffic (snd (snd (fetchMbtaAlerts example_env primary_net [])))) = 1
   \<and> fst (fetchMbtaAlerts example_env primary_net []) = [example_alert ''Delay'']
   \<and> length (traffic (snd (snd (fetchAmtrakAlerts example_env primary_net [])))) = 1
   \<and> amtrak_sourceUrl (fst (fetchAmtrakAlerts example_env primary_net []))
       = ''https://www.amtrak.com/content/amtrak/en-us/service-alerts/rss.xml''"
proof -
  let ?E = example_env and ?N = primary_net
  let ?v1 = "fetchMbtaJson ?E ?N MBTA_VEHICLES_URL (vehiclePrimaryQuery ?E)"
  let ?a1 = "fetchMbtaJson ?E ?N MBTA_ALERTS_URL (alertPrimaryQuery ?E)"
  let ?c = "''https://www.amtrak.com/content/amtrak/en-us/service-alerts/rss.xml''"
  let ?r1 = "fetch ?N (proxied ?E ?c)"
  have cands: "AMTRAK_FEED_CANDIDATES ?E =
      ?c # [''https://www.amtrak.com/content/amtrak/en-us/service-alerts-and-notices/rss.xml'']"
    by (simp add: AMTRAK_FEED_CANDIDATES_def AMTRAK_DEFAULT_FEEDS_def example_env_def)
  note th = later_tier_only_after_earlier[where E = ?E and net = ?N and neta = ?N and netr = ?N
      and ws = "[]", OF prod.collapse[symmetric] prod.collapse[symmetric] prod.collapse[symmetric]
      prod.collapse[symmetric] prod.collapse[symmetric] prod.collapse[symmetric] cands
      prod.collapse[symmetric]]
  have u: "usableVehicles ?E (fst ?v1)" "usableAlerts ?E (fst ?a1)" "usableFeed ?E (fst ?r1)"
    by (simp_all add: transit_run_simps usableVehicles_def usableAlerts_def usableFeed_def
          proxied_def four_vehicles_def)
  have r: "vehiclesFromMbtaV3 ?E (projr (fst ?v1)) = four_vehicles"
      "normalizeAlertsFromMbtaV3 ?E (projr (fst ?a1)) = [example_alert ''Delay'']"
    by (simp_all add: transit_run_simps)
  have t0: "traffic ?N = []" by (simp add: primary_net_def)
  from th u r t0 show ?thesis by simp
qed

section \<open>Numeric epochs in date extraction\<close>

text \<open>
  Claim C7 holds for \<open>toIsoDate\<close> and not for \<open>pickDateString\<close>. \<open>toIsoDate\<close> takes a
  number below \<open>10\<^sup>1\<^sup>2\<close> as seconds and multiplies it by 1000; \<open>pickDateString\<close> hands every
  number to \<open>new Date\<close> as it is, so the seconds-scale epoch 1700000000 (14 November
  2023) becomes the time value 1700000000 ms (20 January 1970). The same holds of every
  whole number of seconds \<open>s\<close> from 0 up to \<open>10\<^sup>1\<^sup>2\<close>: \<open>toIsoDate\<close> prints the time value
  \<open>1000 s\<close> and \<open>pickDateString\<close> the time value \<open>s\<close>. A number from \<open>10\<^sup>1\<^sup>2\<close> on is taken
  as milliseconds by both.
\<close>

theorem seconds_epoch_read_as_milliseconds:
  "pickDateString R [(''occurred_on_date'', JNum (Finite 1700000000))] [''occurred_on_date'']
     = Some (Date_toISOString R 1700000000)
   \<and> toIsoDate R (Some (JNum (Finite 1700000000))) = Some (Date_toISOString R 1700000000000)
   \<and> pickDateStringAt R [(key, JNum n)] key
       = map_option (Date_toISOString R) (Date_of_number n)
   \<and> (0 \<le> s \<and> s < 1000000000000 \<longrightarrow>
        toIsoDate R (Some (JNum (Finite (real_of_int s)))) = Some (Date_toISOString R (1000 * s))
        \<and> pickDateStringAt R [(key, JNum (Finite (real_of_int s)))] key
            = Some (Date_toISOString R s))
   \<and> (1000000000000 \<le> x \<longrightarrow>
        toIsoDate R (Some (JNum (Finite x)))
          = map_option (Date_toISOString R) (Date_of_number (Finite x))
        \<and> pickDateStringAt R [(key, JNum (Finite x))] key
            = map_option (Date_toISOString R) (Date_of_number (Finite x)))"
proof -
  have at: "pickDateStringAt R [(k, JNum m)] k
       = map_option (Date_toISOString R) (Date_of_number m)" for k m
    by (cases "Date_of_number m") (simp_all add: pickDateStringAt_def nullish_def Let_def)
  have c1: "pickDateString R [(''occurred_on_date'', JNum (Finite 1700000000))]
              [''occurred_on_date'']
     = Some (Date_toISOString R 1700000000)"
    by (simp add: pickDateStringAt_def nullish_def Date_of_number_def Let_def)
  have secs: "toIsoDate R (Some (JNum (Finite (real_of_int t))))
                = Some (Date_toISOString R (1000 * t))
              \<and> pickDateStringAt R [(key, JNum (Finite (real_of_int t)))] key
                  = Some (Date_toISOString R t)"
    if t: "0 \<le> t" "t < 1000000000000" for t :: int
  proof -
    have e1: "exactInteger (real_of_int t)"
      using t by (simp add: exactInteger_def)
    have e2: "exactInteger 1000"
      by (simp add: exactInteger_def)
    have "real_of_int t * 1000 = real_of_int (t * 1000)" by simp
    moreover have "\<bar>t * 1000\<bar> \<le> 9007199254740992" using t by simp
    ultimately have e3: "exactInteger (real_of_int t * 1000)"
      unfolding exactInteger_def by (metis floor_of_int of_int_abs of_int_le_iff of_int_numeral)
    have lt: "real_of_int t < 1000000000000" using t by simp
    have d: "Date_of_number (Finite (real_of_int t * 1000)) = Some (1000 * t)"
    proof -
      have "\<bar>real_of_int t * 1000\<bar> \<le> 8640000000000000" using t by simp
      moreover have "\<lfloor>real_of_int t * 1000\<rfloor> = 1000 * t"
        using floor_of_int[of "t * 1000"] by (simp add: mult.commute)
      moreover have "0 \<le> real_of_int t * 1000" using t by simp
      ultimately show ?thesis by (simp add: Date_of_number_def)
    qed
    have d': "Date_of_number (Finite (real_of_int t)) = Some t"
      using t by (simp add: Date_of_number_def)
    have "toIsoDate R (Some (JNum (Finite (real_of_int t))))
            = Some (Date_toISOString R (1000 * t))"
      using e1 e2 e3 lt d by (simp add: toIsoDate_def num_less_def num_times_def Let_def)
    moreover have "pickDateStringAt R [(key, JNum (Finite (real_of_int t)))] key
                  = Some (Date_toISOString R t)"
      using at[of key "Finite (real_of_int t)"] d' by simp
    ultimately show ?thesis by simp
  qed
  have c2: "toIsoDate R (Some (JNum (Finite 1700000000))) = Some (Date_toISOString R 1700000000000)"
    using secs[of 1700000000] by simp
  have ms: "toIsoDate R (Some (JNum (Finite y)))
          = map_option (Date_toISOString R) (Date_of_number (Finite y))"
    if "1000000000000 \<le> y" for y
    using that by (simp add: toIsoDate_def num_less_def Let_def)
  from c1 c2 at[of key n] secs[of s] ms[of x] at[of key "Finite x"] show ?thesis
    by (intro conjI impI) simp_all
qed

text \<open>
  On any runtime: the seconds-scale epoch 1700000000 and the milliseconds-scale epoch
  1700000000000 of the same instant give the same time value in \<open>toIsoDate\<close> and two
  different ones in \<open>pickDateString\<close>.
\<close>

theorem seconds_epoch_read_as_milliseconds_witness:
  "\<forall>R. (0::int) \<le> 1700000000 \<and> (1700000000::int) < 1000000000000
      \<and> (1000000000000::real) \<le> 1700000000000
      \<and> toIsoDate R (Some (JNum (Finite 1700000000))) = Some (Date_toISOString R 1700000000000)
      \<and> toIsoDate R (Some (JNum (Finite 1700000000000)))
          = Some (Date_toISOString R 1700000000000)
      \<and> pickDateStringAt R [(''occurred_on_date'', JNum (Finite 1700000000))] ''occurred_on_date''
          = Some (Date_toISOString R 1700000000)
      \<and> pickDateStringAt R [(''occurred_on_date'', JNum (Finite 1700000000000))]
            ''occurred_on_date''
          = Some (Date_toISOString R 1700000000000)"
proof
  fix R
  from seconds_epoch_read_as_milliseconds[where R = R and s = 1700000000
      and x = 1700000000000 and key = "''occurred_on_date''" and n = NaN]
  show "(0::int) \<le> 1700000000 \<and> (1700000000::int) < 1000000000000
      \<and> (1000000000000::real) \<le> 1700000000000
      \<and> toIsoDate R (Some (JNum (Finite 1700000000))) = Some (Date_toISOString R 1700000000000)
      \<and> toIsoDate R (Some (JNum (Finite 1700000000000)))
          = Some (Date_toISOString R 1700000000000)
      \<and> pickDateStringAt R [(''occurred_on_date'', JNum (Finite 1700000000))] ''occurred_on_date''
          = Some (Date_toISOString R 1700000000)
      \<and> pickDateStringAt R [(''occurred_on_date'', JNum (Finite 1700000000000))]
            ''occurred_on_date''
          = Some (Date_toISOString R 1700000000000)"
    by (simp add: Date_of_number_def)
qed
section \<open>Paging past a page that signals the transfer limit\<close>

text \<open>
  Claim C8, as the code has it. The loop tests the flag of the page it has just received,
  not whether some earlier page signalled. So:
  \<^item> a page that itself signals the transfer limit does not end the loop, however few
    features it has: unless the record cap or the known total count is reached, or the
    page guard is hit, the next page is requested at the next offset;
  \<^item> a page with fewer features than the page size that does not carry the flag ends
    the loop, also when an earlier page signalled;
  \<^item> the warning about the automatic continuation occurs in the returned warnings once
    if some accepted page signalled the limit, however many did, and not at all otherwise.
\<close>

theorem flagged_page_continues_one_warning:
  "(hasMore st \<and> pageGuard st + 1 < maxPages
    \<and> fetchArcGisPage net u q (offset st) ps = (Inr page, net1)
    \<and> page_exceededTransferLimit page = Some True
    \<and> st' = acceptPage ps m c st page
    \<and> enat (length (allFeatures st')) < m
    \<and> \<not> (case c of None \<Rightarrow> False | Some k \<Rightarrow> length_ge (length (allFeatures st')) k)
    \<longrightarrow> fetchPages u q ps maxPages m c net st =
          (case fetchArcGisPage net1 u q (offset st + ps) ps of
             (Inl e, net2) \<Rightarrow> (Inl e, net2)
           | (Inr page2, net2) \<Rightarrow>
               fetchPages u q ps maxPages m c net2 (acceptPage ps m c st' page2)))
   \<and>
   (length (page_features page) < ps \<and> page_exceededTransferLimit page \<noteq> Some True
    \<longrightarrow> \<not> hasMore (acceptPage ps m c st page))
   \<and>
   (fetchArcGisFeatureCollection net0 config = (Inr r, net')
    \<longrightarrow> count_list (fc_warnings r) transferLimitWarning
          = (if list_ex signalsTransferLimit (pageExchanges net0 net') then 1 else 0))"
proof (intro conjI impI)
  assume a: "hasMore st \<and> pageGuard st + 1 < maxPages
    \<and> fetchArcGisPage net u q (offset st) ps = (Inr page, net1)
    \<and> page_exceededTransferLimit page = Some True
    \<and> st' = acceptPage ps m c st page
    \<and> enat (length (allFeatures st')) < m
    \<and> \<not> (case c of None \<Rightarrow> False | Some k \<Rightarrow> length_ge (length (allFeatures st')) k)"
  note c2 = conjunct2
  have g: "pageGuard st < maxPages" using a by simp
  note a1 = a[THEN conjunct1] g a[THEN c2, THEN c2, THEN conjunct1]
    a[THEN c2, THEN c2, THEN c2, THEN conjunct1]
    a[THEN c2, THEN c2, THEN c2, THEN c2, THEN conjunct1]
    a[THEN c2, THEN c2, THEN c2, THEN c2, THEN c2, THEN conjunct1]
    a[THEN c2, THEN c2, THEN c2, THEN c2, THEN c2, THEN c2]
  from continues_past_flagged_short_page[OF a1]
  have k: "hasMore st'" "offset st' = offset st + ps" "pageGuard st' = pageGuard st + 1"
    "fetchPages u q ps maxPages m c net st = fetchPages u q ps maxPages m c net1 st'"
    by blast+
  have loop: "hasMore st' \<and> pageGuard st' < maxPages"
    using k(1,3) a by simp
  have "fetchPages u q ps maxPages m c net1 st' =
          (case fetchArcGisPage net1 u q (offset st') ps of
             (Inl e, net2) \<Rightarrow> (Inl e, net2)
           | (Inr page2, net2) \<Rightarrow>
               fetchPages u q ps maxPages m c net2 (acceptPage ps m c st' page2))"
    by (subst fetchPages.simps) (simp only: loop if_True simp_thms)
  then show "fetchPages u q ps maxPages m c net st =
          (case fetchArcGisPage net1 u q (offset st + ps) ps of
             (Inl e, net2) \<Rightarrow> (Inl e, net2)
           | (Inr page2, net2) \<Rightarrow>
               fetchPages u q ps maxPages m c net2 (acceptPage ps m c st' page2))"
    unfolding k(2) k(4) .
next
  assume "length (page_features page) < ps \<and> page_exceededTransferLimit page \<noteq> Some True"
  then show "\<not> hasMore (acceptPage ps m c st page)"
    by (simp add: acceptPage_fields(2))
next
  assume f: "fetchArcGisFeatureCollection net0 config = (Inr r, net')"
  define maxPages' where "maxPages' = (case cfg_maxPages config of Some n \<Rightarrow> n | None \<Rightarrow> 100)"
  from f obtain count n1 s uu qq pp mm s0 where
    c: "fetchArcGisCount net0 uu qq = (Inr count, n1)"
    and p: "fetchPages uu qq pp maxPages' mm count n1 s0 = (Inr s, net')"
    and s0: "s0 = \<lparr>offset = 0, allFeatures = [], hasMore = True, pageGuard = 0,
        sawExceededTransferLimit = False,
        page_warnings = (if count = None then [countWarning] else [])\<rparr>"
    and ws: "fc_warnings r = page_warnings s
       @ (if maxPages' \<le> pageGuard s then [cappedWarning maxPages'] else [])
       @ (if sawExceededTransferLimit s then [transferLimitWarning] else [])"
    unfolding maxPages'_def by (rule fetchArcGisFeatureCollection_Inr) blast
  from fetchArcGisCount_exchange[OF c] obtain x where
    x: "n1 = net0\<lparr>traffic := traffic net0 @ [x]\<rparr>" by blast
  have "transfer_inv (traffic n1) net' s \<and> \<not> (hasMore s \<and> pageGuard s < maxPages')"
  proof (rule fetchPages_invariant[OF p, where P = "transfer_inv (traffic n1)"])
    show "transfer_inv (traffic n1) n1 s0"
      using transferLimitWarning_distinct(3) by (auto simp: transfer_inv_def s0)
  next
    fix n st page n2
    assume "transfer_inv (traffic n1) n st" "fetchArcGisPage n uu qq (offset st) pp = (Inr page, n2)"
    then show "transfer_inv (traffic n1) n2 (acceptPage pp mm count st page)"
      by (rule transfer_inv_step)
  qed
  then obtain xs where xs: "traffic net' = traffic n1 @ xs"
    "sawExceededTransferLimit s \<longleftrightarrow> list_ex signalsTransferLimit xs"
    "transferLimitWarning \<notin> set (page_warnings s)"
    unfolding transfer_inv_def by blast
  have pe: "pageExchanges net0 net' = xs"
    using xs(1) x by (simp add: pageExchanges_def)
  have "count_list (page_warnings s) transferLimitWarning = 0"
    using xs(3) by (simp add: count_list_0_iff)
  then show "count_list (fc_warnings r) transferLimitWarning
          = (if list_ex signalsTransferLimit (pageExchanges net0 net') then 1 else 0)"
    using xs(2) pe transferLimitWarning_distinct(2)[of maxPages'] by (simp add: ws)
qed

text \<open>
  The claim as it is written lets a signal of some page keep the loop going past later
  short pages. With page size 2, the first page is full and signals the limit, the second
  has one feature and no flag: the loop ends there, after the count probe and two page
  requests, although no cap, count or page guard stops it and a third page is there.
\<close>

theorem sticky_continuation_counterexample:
  "fst (fetchArcGisFeatureCollection unflagged_short_net (example_config (Some 2) None None)) =
     Inr \<lparr>fc_layer = \<lparr>features = [blank_feature, blank_feature, blank_feature]\<rparr>,
          fc_warnings = [transferLimitWarning],
          fc_queryParams =
            [(''where'', QString ''1=1''), (''outFields'', QString ''*''),
             (''returnGeometry'', QBoolean True), (''outSR'', QNumber 4326),
             (''pageSize'', QNumber 2)]\<rparr>
   \<and> length (traffic (snd (fetchArcGisFeatureCollection unflagged_short_net
                             (example_config (Some 2) None None)))) = 3
   \<and> signalsTransferLimit
        (traffic (snd (fetchArcGisFeatureCollection unflagged_short_net
                         (example_config (Some 2) None None))) ! 1)"
  by (simp add: run_simps boston_run_simps signalsTransferLimit_def pageOutcome_def)

text \<open>
  A loop that starts on a page of one feature carrying the flag requests the page at
  offset 2; a page of one feature without the flag ends the loop; and a fetch over two
  flagged short pages and an empty page makes four requests and returns one continuation
  warning.
\<close>

theorem flagged_page_continues_one_warning_witness:
  "fetchPages example_url layer_query 2 100 \<infinity> None paging_net paging_start =
     (case fetchArcGisPage (snd (fetchArcGisPage paging_net example_url layer_query 0 2))
             example_url layer_query 2 2 of
        (Inl e, net2) \<Rightarrow> (Inl e, net2)
      | (Inr page2, net2) \<Rightarrow>
          fetchPages example_url layer_query 2 100 \<infinity> None net2
            (acceptPage 2 \<infinity> None (acceptPage 2 \<infinity> None paging_start flagged_page) page2))
   \<and> \<not> hasMore (acceptPage 2 \<infinity> None paging_start unflagged_page)
   \<and> fst (fetchArcGisFeatureCollection flagged_net (example_config (Some 2) None None)) =
       Inr \<lparr>fc_layer = \<lparr>features = [blank_feature, blank_feature]\<rparr>,
            fc_warnings = [countWarning, transferLimitWarning],
            fc_queryParams =
              [(''where'', QString ''1=1''), (''outFields'', QString ''*''),
               (''returnGeometry'', QBoolean True), (''outSR'', QNumber 4326),
               (''pageSize'', QNumber 2)]\<rparr>
   \<and> length (traffic (snd (fetchArcGisFeatureCollection flagged_net
                             (example_config (Some 2) None None)))) = 4
   \<and> count_list [countWarning, transferLimitWarning] transferLimitWarning = 1"
proof -
  let ?cfg = "example_config (Some 2) None None"
  let ?X = "fetchArcGisFeatureCollection flagged_net ?cfg"
  let ?r = "\<lparr>fc_layer = \<lparr>features = [blank_feature, blank_feature]\<rparr>,
          fc_warnings = [countWarning, transferLimitWarning],
          fc_queryParams =
            [(''where'', QString ''1=1''), (''outFields'', QString ''*''),
             (''returnGeometry'', QBoolean True), (''outSR'', QNumber 4326),
             (''pageSize'', QNumber 2)]\<rparr>"
  let ?P = "fetchArcGisPage paging_net example_url layer_query 0 2"
  let ?s1 = "acceptPage 2 \<infinity> None paging_start flagged_page"
  note th = flagged_page_continues_one_warning[where ?net0.0 = flagged_net and config = ?cfg
      and r = ?r and net' = "snd ?X" and st = paging_start and maxPages = 100
      and net = paging_net and u = example_url and q = layer_query and ps = 2
      and ?net1.0 = "snd ?P" and st' = ?s1 and m = "\<infinity>" and c = None]
  have p1: "?P = (Inr flagged_page, snd ?P)"
    by (simp add: fetchArcGisPage_def fetch_def paging_net_def replay_server_def ok_json_def
          response_ok_def flagged_json_def flagged_page_def Let_def)
  have h1: "hasMore paging_start \<and> pageGuard paging_start + 1 < 100
      \<and> fetchArcGisPage paging_net example_url layer_query (offset paging_start) 2
          = (Inr flagged_page, snd ?P)
      \<and> page_exceededTransferLimit flagged_page = Some True
      \<and> ?s1 = acceptPage 2 \<infinity> None paging_start flagged_page
      \<and> enat (length (allFeatures ?s1)) < \<infinity>
      \<and> \<not> (case None :: jsnum option of None \<Rightarrow> False
              | Some k \<Rightarrow> length_ge (length (allFeatures ?s1)) k)"
    using p1 by (simp add: paging_start_def flagged_page_def)
  have c1: "fetchPages example_url layer_query 2 100 \<infinity> None paging_net paging_start =
     (case fetchArcGisPage (snd ?P) example_url layer_query (offset paging_start + 2) 2 of
        (Inl e, net2) \<Rightarrow> (Inl e, net2)
      | (Inr page2, net2) \<Rightarrow>
          fetchPages example_url layer_query 2 100 \<infinity> None net2 (acceptPage 2 \<infinity> None ?s1 page2))"
    using th[where page = flagged_page, THEN conjunct1, THEN mp, OF h1] .
  have c2: "\<not> hasMore (acceptPage 2 \<infinity> None paging_start unflagged_page)"
    using th[where page = unflagged_page, THEN conjunct2, THEN conjunct1]
    by (simp add: unflagged_page_def)
  have run: "fst ?X = Inr ?r"
    by (simp add: run_simps boston_run_simps countWarning_def transferLimitWarning_def)
  then have eq: "?X = (Inr ?r, snd ?X)" by (cases ?X) simp
  have len: "length (traffic (snd ?X)) = 4" by (simp add: run_simps boston_run_simps)
  have sig: "list_ex signalsTransferLimit (pageExchanges flagged_net (snd ?X))"
    by (simp add: run_simps boston_run_simps pageExchanges_def signalsTransferLimit_def
          pageOutcome_def)
  from th[where page = flagged_page, THEN conjunct2, THEN conjunct2, THEN mp, OF eq] sig
  have "count_list (fc_warnings ?r) transferLimitWarning = 1" by simp
  then have c3: "count_list [countWarning, transferLimitWarning] transferLimitWarning = 1"
    by simp
  have off: "offset paging_start + 2 = 2" by (simp add: paging_start_def)
  from c1[unfolded off] c2 run len c3 show ?thesis by (intro conjI)
qed

section \<open>Polyline decoding is prefix-safe\<close>









text \<open>The decoder on a well-known example: three points, as \<open>[lon, lat]\<close>.\<close>

lemma decodePolyline_example:
  "decodePolyline (map of_char ''_p~iF~ps|U_ulLnnqC_mqNvxq`@'')
     = [(- 120.2, 38.5), (- 120.95, 40.7), (- 126.453, 43.252)]"
  by (simp add: decodePolyline_def decodeFrom.simps readChunk.simps Let_def unzigzag_def)


section \<open>The record count of the provenance\<close>

text \<open>
  Claim C10. In the payload of a successful refresh of a Boston dataset, \<open>recordCount\<close>
  is the length of the incident list for an incident dataset, the length of the feature
  collection for a layer dataset, and 0, with an empty collection, for a stub dataset.
  In the payload of a transit refresh, \<open>recordCount\<close> is the number of vehicles plus the
  number of alerts.
\<close>

theorem record_count_matches_payload:
  assumes "refreshBostonDataset R now net cache d = (Inr p, net', cache')"
  shows "(cfg_mode (DATASETS d) = ModeIncident \<longrightarrow>
            (\<exists>is. incidents p = Some is \<and> layer p = None
                  \<and> recordCount (provenance p) = length is))
         \<and> (cfg_mode (DATASETS d) = ModeLayer \<longrightarrow>
            (\<exists>l. layer p = Some l \<and> incidents p = None
                 \<and> recordCount (provenance p) = length (features l)))
         \<and> (cfg_mode (DATASETS d) = ModeStub \<longrightarrow>
            layer p = Some \<lparr>features = []\<rparr> \<and> incidents p = None
            \<and> recordCount (provenance p) = 0)
         \<and> recordCount (transit_provenance (fst (refreshLocalTransit E R now tnet tcache)))
             = length (vehicles (fst (refreshLocalTransit E R now tnet tcache)))
               + length (alerts (fst (refreshLocalTransit E R now tnet tcache)))"
proof -
  have boston: "(cfg_mode (DATASETS d) = ModeIncident \<longrightarrow>
            (\<exists>is. incidents p = Some is \<and> layer p = None
                  \<and> recordCount (provenance p) = length is))
         \<and> (cfg_mode (DATASETS d) = ModeLayer \<longrightarrow>
            (\<exists>l. layer p = Some l \<and> incidents p = None
                 \<and> recordCount (provenance p) = length (features l)))
         \<and> (cfg_mode (DATASETS d) = ModeStub \<longrightarrow>
            layer p = Some \<lparr>features = []\<rparr> \<and> incidents p = None
            \<and> recordCount (provenance p) = 0)"
  proof (cases "cfg_mode (DATASETS d)")
    case ModeStub
    with assms show ?thesis by (auto simp: refreshBostonDataset_def Let_def)
  next
    case ModeIncident
    with assms show ?thesis
      by (auto simp: refreshBostonDataset_def Let_def split: prod.splits sum.splits)
  next
    case ModeLayer
    with assms show ?thesis
      by (auto simp: refreshBostonDataset_def Let_def split: prod.splits sum.splits)
  qed
  have transit: "recordCount (transit_provenance (fst (refreshLocalTransit E R now tnet tcache)))
             = length (vehicles (fst (refreshLocalTransit E R now tnet tcache)))
               + length (alerts (fst (refreshLocalTransit E R now tnet tcache)))"
    by (simp add: refreshLocalTransit_def Let_def split: prod.splits)
  from boston transit show ?thesis by blast
qed

text \<open>
  A refresh of the police districts over a page of two features counts 2; a transit
  refresh that finds four vehicles, an MBTA alert and an Amtrak alert counts 6.
\<close>

theorem record_count_matches_payload_witness:
  "map_sum id layer
     (fst (refreshBostonDataset example_runtime ''2024-06-01T00:00:00.000Z'' scenario_net
             Map.empty policeDistricts)) = Inr (Some \<lparr>features = two_features\<rparr>)
   \<and> map_sum id (\<lambda>p. recordCount (provenance p))
       (fst (refreshBostonDataset example_runtime ''2024-06-01T00:00:00.000Z'' scenario_net
               Map.empty policeDistricts)) = Inr 2
   \<and> length (vehicles (fst (refreshLocalTransit example_env example_runtime
                               ''2024-06-01T00:00:00.000Z'' transit_net Map.empty))) = 4
   \<and> length (alerts (fst (refreshLocalTransit example_env example_runtime
                             ''2024-06-01T00:00:00.000Z'' transit_net Map.empty))) = 2
   \<and> recordCount (transit_provenance (fst (refreshLocalTransit example_env example_runtime
                             ''2024-06-01T00:00:00.000Z'' transit_net Map.empty))) = 6"
proof -
  let ?X = "refreshBostonDataset example_runtime ''2024-06-01T00:00:00.000Z'' scenario_net
             Map.empty policeDistricts"
  let ?T = "refreshLocalTransit example_env example_runtime ''2024-06-01T00:00:00.000Z''
              transit_net Map.empty"
  have l: "map_sum id layer (fst ?X) = Inr (Some \<lparr>features = two_features\<rparr>)"
    by (simp add: run_simps refresh_run_simps)
  then obtain p where p: "fst ?X = Inr p" "layer p = Some \<lparr>features = two_features\<rparr>"
    by (cases "fst ?X") auto
  then have eq: "?X = (Inr p, fst (snd ?X), snd (snd ?X))" by (cases ?X) simp
  have m: "cfg_mode (DATASETS policeDistricts) = ModeLayer" by (simp add: DATASETS_def)
  have v: "length (vehicles (fst ?T)) = 4"
    by (simp add: transit_run_simps refresh_run_simps four_vehicles_def)
  have a: "length (alerts (fst ?T)) = 2"
    by (simp add: transit_run_simps refresh_run_simps four_vehicles_def)
  note th = record_count_matches_payload[OF eq, where E = example_env and tnet = transit_net
      and tcache = Map.empty]
  from th m p(2) have "recordCount (provenance p) = length two_features" by auto
  moreover from th v a have "recordCount (transit_provenance (fst ?T)) = 6" by simp
  ultimately show ?thesis using l p v a by (simp add: two_features_def)
qed

end
